theory Spec2Isabelle
  imports Complex_Main "HOL-Library.Multiset"
begin

section \<open>Numbers\<close>

text \<open>
  A JavaScript Number is an IEEE 754 binary64 value: a finite number, which is kept as the
  rational it denotes, one of the two infinities, or NaN. The two zeros are one value here:
  addition and the comparisons used below do not tell them apart.
\<close>

datatype float64 = Double rat | PosInfinity | NegInfinity | NotANumber

fun bit_length :: "nat \<Rightarrow> nat" where
  "bit_length n = (if n = 0 then 0 else Suc (bit_length (n div 2)))"

declare bit_length.simps [simp del]

definition pow2 :: "int \<Rightarrow> rat" where
  "pow2 k = (if 0 \<le> k then 2 ^ nat k else 1 / 2 ^ nat (- k))"

text \<open>The binary exponent of a positive rational: the \<open>k\<close> with \<open>2 ^ k \<le> a < 2 ^ (k + 1)\<close>.\<close>

definition ilog2 :: "rat \<Rightarrow> int" where
  "ilog2 a =
     (if 1 \<le> a then int (bit_length (nat \<lfloor>a\<rfloor>)) - 1
      else - int (bit_length (nat (\<lceil>1 / a\<rceil> - 1))))"

definition round_half_even :: "rat \<Rightarrow> int" where
  "round_half_even x =
     (let f = \<lfloor>x\<rfloor>; r = x - of_int f
      in if r < 1 / 2 then f
         else if 1 / 2 < r then f + 1
         else if even f then f else f + 1)"

text \<open>
  Rounding to nearest, ties to even: the Number value of a rational. The significand has
  53 bits, so the spacing of the doubles around \<open>a\<close> is \<open>2 ^ (ilog2 a - 52)\<close>, and never
  less than \<open>2 ^ - 1074\<close>, the spacing of the subnormal numbers. A result of \<open>2 ^ 1024\<close> or
  more is an infinity. A decimal literal of the source denotes the Number value of the
  rational that it writes.
\<close>

definition binary64 :: "rat \<Rightarrow> float64" where
  "binary64 q =
     (if q = 0 then Double 0
      else
        (let a = \<bar>q\<bar>;
             e = max (ilog2 a - 52) (- 1074);
             m = round_half_even (a / pow2 e);
             v = of_int m * pow2 e
         in if v \<ge> 2 ^ 1024 then (if 0 < q then PosInfinity else NegInfinity)
            else Double (sgn q * v)))"

text \<open>\<^verbatim>\<open>x + y\<close> on Numbers: the exact sum, rounded.\<close>

fun add64 :: "float64 \<Rightarrow> float64 \<Rightarrow> float64" where
  "add64 (Double a) (Double b) = binary64 (a + b)"
| "add64 NotANumber y = NotANumber"
| "add64 x NotANumber = NotANumber"
| "add64 PosInfinity NegInfinity = NotANumber"
| "add64 NegInfinity PosInfinity = NotANumber"
| "add64 PosInfinity y = PosInfinity"
| "add64 x PosInfinity = PosInfinity"
| "add64 NegInfinity y = NegInfinity"
| "add64 x NegInfinity = NegInfinity"

text \<open>\<^verbatim>\<open>x <= y\<close> and \<^verbatim>\<open>x >= y\<close> on Numbers: false as soon as one side is NaN.\<close>

fun le64 :: "float64 \<Rightarrow> float64 \<Rightarrow> bool" where
  "le64 (Double a) (Double b) = (a \<le> b)"
| "le64 NotANumber y = False"
| "le64 x NotANumber = False"
| "le64 NegInfinity y = True"
| "le64 x PosInfinity = True"
| "le64 PosInfinity y = False"
| "le64 x NegInfinity = False"

definition ge64 :: "float64 \<Rightarrow> float64 \<Rightarrow> bool" where
  "ge64 x y = le64 y x"

section \<open>Weight validation (frontend/src/utils/helpers.js)\<close>

text \<open>
  A JavaScript object used as a dictionary is an association list: the pairs are kept in
  insertion order, which is the order in which \<^verbatim>\<open>Object.values\<close> enumerates them and
  in which \<^verbatim>\<open>reduce\<close> adds them up.
\<close>

type_synonym weights = "(string \<times> float64) list"

definition Object_values :: "weights \<Rightarrow> float64 list" where
  "Object_values w = map snd w"

text \<open>
  The \<^verbatim>\<open>message\<close> field is a template string; it is kept structured, the total that
  the template prints with \<^verbatim>\<open>toFixed(1)\<close> being carried as a number.
\<close>

datatype message =
    TotalHarus100 float64   \<comment> \<open>\<^verbatim>\<open>Total bobot harus 100% (saat ini: ...%)\<close>\<close>
  | BobotNol                \<comment> \<open>\<^verbatim>\<open>Tidak boleh ada bobot bernilai 0\<close>\<close>
  | Valid                   \<comment> \<open>\<^verbatim>\<open>Valid\<close>\<close>

record validation =
  isValid :: bool
  total :: float64
  hasZero :: bool
  message :: message

definition validateWeights :: "weights \<Rightarrow> validation" where
  "validateWeights w =
     (let total = foldl (\<lambda>sum val. add64 sum val) (Double 0) (Object_values w);
          isValid = (ge64 total (Double 99) \<and> le64 total (Double 101));
          hasZero = list_ex (\<lambda>val. val = Double 0) (Object_values w)
      in \<lparr> isValid = (isValid \<and> \<not> hasZero),
           total = total,
           hasZero = hasZero,
           message = (if \<not> isValid then TotalHarus100 total
                      else if hasZero then BobotNol
                      else Valid) \<rparr>)"

section \<open>Saving weights on the Admin page\<close>

datatype toast =
    ToastError message        \<comment> \<open>\<^verbatim>\<open>toast.error(validation.message)\<close>\<close>
  | ToastBerhasilDisimpan     \<comment> \<open>\<^verbatim>\<open>toast.success('Bobot berhasil disimpan')\<close>\<close>
  | ToastGagalMenyimpan       \<comment> \<open>\<^verbatim>\<open>toast.error('Gagal menyimpan bobot')\<close>\<close>

text \<open>
  The component state that \<^verbatim>\<open>saveWeights\<close> reads and writes, together with the two
  effects it has on the outside: the toasts shown and the payloads handed to
  \<^verbatim>\<open>adminAPI.updateWeights\<close>, both logged in order.
\<close>

record admin_state =
  weights :: weights
  originalWeights :: weights
  saving :: bool
  toasts :: "toast list"
  updateWeights_calls :: "weights list"

text \<open>
  The request either resolves or rejects; the outcome is the parameter \<open>resolves\<close>.
  The \<^verbatim>\<open>finally\<close> block runs on both paths.
\<close>

definition saveWeights :: "bool \<Rightarrow> admin_state \<Rightarrow> admin_state" where
  "saveWeights resolves s =
     (let validation = validateWeights (weights s) in
      if \<not> isValid validation
      then s\<lparr> toasts := toasts s @ [ToastError (message validation)] \<rparr>
      else
        (let s1 = s\<lparr> saving := True \<rparr>;
             s2 = s1\<lparr> updateWeights_calls := updateWeights_calls s1 @ [weights s] \<rparr>;
             s3 = (if resolves
                   then s2\<lparr> originalWeights := weights s,
                            toasts := toasts s2 @ [ToastBerhasilDisimpan] \<rparr>
                   else s2\<lparr> toasts := toasts s2 @ [ToastGagalMenyimpan] \<rparr>)
         in s3\<lparr> saving := False \<rparr>))"

section \<open>Match-reason badges of a phone card\<close>

text \<open>
  \<^verbatim>\<open>Array.prototype.slice(start, end)\<close> for non-negative bounds: both are clamped to the
  length, and the elements from \<open>start\<close> up to, not including, \<open>end\<close> are copied.
\<close>

definition Array_slice :: "nat \<Rightarrow> nat \<Rightarrow> 'a list \<Rightarrow> 'a list" where
  "Array_slice start end xs =
     (let len = length xs;
          k = min start len;
          final = min end len
      in take (final - k) (drop k xs))"

text \<open>
  The strings that \<^verbatim>\<open>PhoneCard\<close> renders as badges, in order. The prop is \<open>None\<close> when
  the caller passes \<^verbatim>\<open>null\<close>; an omitted prop takes the default \<^verbatim>\<open>[]\<close>, and both render
  nothing, as an empty list does.
\<close>

definition PhoneCard_highlights :: "string list option \<Rightarrow> string list" where
  "PhoneCard_highlights highlights =
     (case highlights of
        None \<Rightarrow> []
      | Some hs \<Rightarrow> if length hs > 0 then map (\<lambda>highlight. highlight) (Array_slice 0 3 hs) else [])"

section \<open>Camera resolution parsing (frontend/src/utils/helpers.js)\<close>

datatype error = TypeError

text \<open>
  The inputs considered: \<^verbatim>\<open>null\<close>, \<^verbatim>\<open>undefined\<close>, a number, a string. What the language
  fixes for a number, whether it is falsy (\<open>0\<close>, \<open>-0\<close>, \<open>NaN\<close>) and its string form
  (\<^verbatim>\<open>Number.prototype.toString\<close>), are parameters \<open>nf\<close> and \<open>ns\<close> of the model.
\<close>

datatype 'num jsvalue = JNull | JUndefined | JNumber 'num | JString string

text \<open>The numbers the function can return: no negative and no fractional value arises.\<close>

datatype number = NaN | Infinity | Integer nat

fun falsy :: "('num \<Rightarrow> bool) \<Rightarrow> 'num jsvalue \<Rightarrow> bool" where
  "falsy nf JNull = True"
| "falsy nf JUndefined = True"
| "falsy nf (JNumber n) = nf n"
| "falsy nf (JString s) = (s = [])"

text \<open>A method call on \<^verbatim>\<open>null\<close> or \<^verbatim>\<open>undefined\<close> throws.\<close>

fun toString :: "('num \<Rightarrow> string) \<Rightarrow> 'num jsvalue \<Rightarrow> error + string" where
  "toString ns JNull = Inl TypeError"
| "toString ns JUndefined = Inl TypeError"
| "toString ns (JNumber n) = Inr (ns n)"
| "toString ns (JString s) = Inr s"

definition is_digit :: "char \<Rightarrow> bool" where
  "is_digit c = (c \<in> set ''0123456789'')"

text \<open>
  \<^verbatim>\<open>s.match(/(\d+)/)\<close>: the leftmost match of a greedy, non-empty run of digits; the
  result is the captured group, \<open>None\<close> for \<^verbatim>\<open>null\<close>.
\<close>

definition match_digits :: "string \<Rightarrow> string option" where
  "match_digits s =
     (case dropWhile (\<lambda>c. \<not> is_digit c) s of
        [] \<Rightarrow> None
      | c # cs \<Rightarrow> Some (takeWhile is_digit (c # cs)))"

definition digit_value :: "char \<Rightarrow> nat" where
  "digit_value c = of_char c - 48"

definition decimal :: "string \<Rightarrow> nat" where
  "decimal ds = foldl (\<lambda>acc c. 10 * acc + digit_value c) 0 ds"

text \<open>
  The Number value of a non-negative integer: itself up to \<open>2 ^ 53\<close>; beyond, the nearest
  multiple of the spacing \<open>2 ^ e\<close> of the doubles of that magnitude, ties going to the even
  significand, and \<open>Infinity\<close> from \<open>2 ^ 1024\<close> on.
\<close>

definition to_double :: "nat \<Rightarrow> number" where
  "to_double n =
     (if n \<le> 2 ^ 53 then Integer n
      else
        (let e = bit_length n - 53;
             q = n div 2 ^ e;
             r = n mod 2 ^ e;
             half = 2 ^ (e - 1);
             q' = (if r > half \<or> (r = half \<and> odd q) then q + 1 else q);
             v = q' * 2 ^ e
         in if v \<ge> 2 ^ 1024 then Infinity else Integer v))"

text \<open>
  \<^verbatim>\<open>parseInt(s, 10)\<close> on a string that starts with a digit or with any character that
  is neither white space nor a sign, which is all that \<^verbatim>\<open>match[1]\<close> can be: the digits in
  front are read in base 10, and there being none gives \<open>NaN\<close>.
\<close>

definition parseInt10 :: "string \<Rightarrow> number" where
  "parseInt10 s =
     (case takeWhile is_digit s of
        [] \<Rightarrow> NaN
      | c # cs \<Rightarrow> to_double (decimal (c # cs)))"

definition parseCameraResolution ::
  "('num \<Rightarrow> bool) \<Rightarrow> ('num \<Rightarrow> string) \<Rightarrow> 'num jsvalue \<Rightarrow> error + number" where
  "parseCameraResolution nf ns resolution =
     (if falsy nf resolution then Inr (Integer 0)
      else
        (case toString ns resolution of
           Inl e \<Rightarrow> Inl e
         | Inr s \<Rightarrow>
             (case match_digits s of
                Some m \<Rightarrow> Inr (parseInt10 m)
              | None \<Rightarrow> Inr (Integer 0))))"

text \<open>
  One instance of the parameters, for the numbers that are integers of magnitude below
  \<open>10 ^ 21\<close>: such a number is falsy when it is 0, and its string form is its decimal
  representation, with a minus sign when it is negative.
\<close>

fun digits_of :: "nat \<Rightarrow> string" where
  "digits_of n =
     (if n < 10 then [''0123456789'' ! n]
      else digits_of (n div 10) @ [''0123456789'' ! (n mod 10)])"

declare digits_of.simps [simp del]

definition integer_toString :: "int \<Rightarrow> string" where
  "integer_toString n =
     (if n < 0 then CHR ''-'' # digits_of (nat (- n)) else digits_of (nat n))"

definition integer_falsy :: "int \<Rightarrow> bool" where
  "integer_falsy n = (n = 0)"

section \<open>Sorting the recommendations on the Results page\<close>

text \<open>
  The fields of a phone that the comparator reads. Each price and rating comes under two
  spellings, either of which may be missing; \<open>None\<close> stands for \<^verbatim>\<open>undefined\<close>.
\<close>

record phone =
  Harga :: "real option"
  harga :: "real option"
  Rating_pengguna :: "real option"
  rating_pengguna :: "real option"

record recommendation =
  phone :: phone
  similarity_score :: real

text \<open>
  \<^verbatim>\<open>x || y\<close> on possibly missing numbers: \<open>x\<close> when it is truthy (present and not 0),
  else \<open>y\<close>. A subtraction with a missing operand is \<open>NaN\<close>, for which \<open>None\<close> stands
  as well.
\<close>

definition truthy :: "real option \<Rightarrow> bool" where
  "truthy x = (case x of None \<Rightarrow> False | Some v \<Rightarrow> v \<noteq> 0)"

definition js_or :: "real option \<Rightarrow> real option \<Rightarrow> real option" where
  "js_or x y = (if truthy x then x else y)"

definition js_minus :: "real option \<Rightarrow> real option \<Rightarrow> real option" where
  "js_minus x y =
     (case x of
        None \<Rightarrow> None
      | Some a \<Rightarrow> (case y of None \<Rightarrow> None | Some b \<Rightarrow> Some (a - b)))"

text \<open>The arrow function handed to \<^verbatim>\<open>sort\<close>, with its \<^verbatim>\<open>switch\<close> on \<^verbatim>\<open>sortBy\<close>.\<close>

definition compareFn :: "string \<Rightarrow> recommendation \<Rightarrow> recommendation \<Rightarrow> real option" where
  "compareFn sortBy a b =
     (if sortBy = ''price_asc'' then
        js_minus (js_or (Harga (phone a)) (harga (phone a)))
                 (js_or (Harga (phone b)) (harga (phone b)))
      else if sortBy = ''price_desc'' then
        js_minus (js_or (Harga (phone b)) (harga (phone b)))
                 (js_or (Harga (phone a)) (harga (phone a)))
      else if sortBy = ''rating'' then
        js_minus (js_or (js_or (Rating_pengguna (phone b)) (rating_pengguna (phone b))) (Some 0))
                 (js_or (js_or (Rating_pengguna (phone a)) (rating_pengguna (phone a))) (Some 0))
      else
        Some (similarity_score b - similarity_score a))"

text \<open>
  \<^verbatim>\<open>Array.prototype.sort\<close> reads the comparator's result as a number and takes \<open>NaN\<close>
  for \<open>+0\<close>.
\<close>

definition SortCompare :: "('a \<Rightarrow> 'a \<Rightarrow> real option) \<Rightarrow> 'a \<Rightarrow> 'a \<Rightarrow> real" where
  "SortCompare comparefn x y = (case comparefn x y of None \<Rightarrow> 0 | Some v \<Rightarrow> v)"

text \<open>
  The sort itself is a stable insertion sort: an element goes in front of the first
  element that it does not have to follow. The language requires the sort to be stable,
  so for a consistent comparator every implementation returns this order; for an
  inconsistent one the language leaves the order to the implementation, and this is one
  of the orders allowed.
\<close>

fun insert_sorted :: "('a \<Rightarrow> 'a \<Rightarrow> real) \<Rightarrow> 'a \<Rightarrow> 'a list \<Rightarrow> 'a list" where
  "insert_sorted cmp x [] = [x]"
| "insert_sorted cmp x (y # ys) =
     (if cmp x y \<le> 0 then x # y # ys else y # insert_sorted cmp x ys)"

definition Array_sort :: "('a \<Rightarrow> 'a \<Rightarrow> real option) \<Rightarrow> 'a list \<Rightarrow> 'a list" where
  "Array_sort comparefn xs = foldr (insert_sorted (SortCompare comparefn)) xs []"

text \<open>
  Arrays are objects, so they live in a heap and are passed by reference: an address is an
  index into the list of all arrays. The spread \<^verbatim>\<open>[...a]\<close> allocates a copy, and
  \<^verbatim>\<open>sort\<close> overwrites the array at the address it is called on and returns that
  address. A dangling address does not exist in the language; the model reads the empty
  array there.
\<close>

type_synonym 'a heap = "'a list list"

definition deref :: "'a heap \<Rightarrow> nat \<Rightarrow> 'a list" where
  "deref h a = (if a < length h then h ! a else [])"

definition spread :: "'a heap \<Rightarrow> nat \<Rightarrow> 'a heap \<times> nat" where
  "spread h a = (h @ [deref h a], length h)"

definition sort_in_place :: "('a \<Rightarrow> 'a \<Rightarrow> real option) \<Rightarrow> 'a heap \<Rightarrow> nat \<Rightarrow> 'a heap \<times> nat" where
  "sort_in_place comparefn h a = (h[a := Array_sort comparefn (deref h a)], a)"

definition sortedRecommendations ::
  "recommendation heap \<Rightarrow> nat \<Rightarrow> string \<Rightarrow> recommendation heap \<times> nat" where
  "sortedRecommendations h recommendations sortBy =
     (let (h1, copy) = spread h recommendations
      in sort_in_place (compareFn sortBy) h1 copy)"

section \<open>Evaluation page\<close>

record metrics =
  accuracy :: rat
  precision :: rat
  recall :: rat
  f1_score :: rat

record confusion_matrix =
  matrix :: "nat list list"
  labels :: "string list"
  tp :: nat
  tn :: nat
  fp :: nat
  fn :: nat

record scenario_entry =
  name :: string
  train_size :: nat
  test_size :: nat
  metrics :: metrics
  confusion_matrix :: confusion_matrix

record results =
  success :: bool
  best_scenario :: string
  scenarios :: "scenario_entry list"

definition DEFAULT_RESULTS :: results where
  "DEFAULT_RESULTS =
     \<lparr> success = True,
       best_scenario = ''70-30'',
       scenarios = [
         \<lparr> name = ''70-30'',
           train_size = 700,
           test_size = 300,
           metrics = \<lparr> accuracy = 76.0, precision = 75.96, recall = 76.0, f1_score = 75.74 \<rparr>,
           confusion_matrix =
             \<lparr> matrix = [[24, 8, 9], [7, 122, 17], [1, 30, 82]],
               labels = [''Gaming'', ''Photographer'', ''Daily''],
               tp = 228, tn = 0, fp = 72, fn = 0 \<rparr> \<rparr>] \<rparr>"

text \<open>The rows of the Classification Report table, as the page writes them out.\<close>

record report_row =
  label :: string
  row_precision :: rat
  row_recall :: rat
  row_f1 :: rat
  support :: nat

definition classification_report :: "report_row list" where
  "classification_report =
     [ \<lparr> label = ''Gaming'', row_precision = 0.75, row_recall = 0.59, row_f1 = 0.66, support = 41 \<rparr>,
       \<lparr> label = ''Photographer'', row_precision = 0.76, row_recall = 0.84, row_f1 = 0.80,
         support = 146 \<rparr>,
       \<lparr> label = ''Daily'', row_precision = 0.76, row_recall = 0.73, row_f1 = 0.74, support = 113 \<rparr> ]"

text \<open>The one scenario of \<^verbatim>\<open>DEFAULT_RESULTS\<close> and its confusion matrix.\<close>

definition default_scenario :: scenario_entry where
  "default_scenario = hd (scenarios DEFAULT_RESULTS)"

definition default_matrix :: "nat list list" where
  "default_matrix = matrix (confusion_matrix default_scenario)"

text \<open>
  One entry of \<^verbatim>\<open>data.results\<close> as the server sends it: \<^verbatim>\<open>r.scenario\<close> and
  \<^verbatim>\<open>r.metrics\<close> are all that \<^verbatim>\<open>loadResults\<close> reads of it.
\<close>

record api_result =
  scenario :: string
  api_metrics :: metrics

text \<open>
  What \<^verbatim>\<open>await evaluationAPI.getResults()\<close> does: it throws, or it yields \<^verbatim>\<open>data\<close>,
  whose \<^verbatim>\<open>results\<close> field is an array or is missing.
\<close>

datatype getResults_outcome = Rejected | Resolved "api_result list option"

datatype evaluation_toast =
    ToastMenjalankan     \<comment> \<open>\<^verbatim>\<open>toast.loading('Menjalankan evaluasi...')\<close>\<close>
  | ToastSelesai         \<comment> \<open>\<^verbatim>\<open>toast.success('Evaluasi selesai!')\<close>\<close>
  | ToastGagal           \<comment> \<open>\<^verbatim>\<open>toast.error('Gagal menjalankan evaluasi')\<close>\<close>

record evaluation_state =
  loading :: bool
  evaluating :: bool
  results :: "results option"
  evaluation_toasts :: "evaluation_toast list"

definition loadResults :: "getResults_outcome \<Rightarrow> evaluation_state \<Rightarrow> evaluation_state" where
  "loadResults outcome s =
     (let s1 = s\<lparr> loading := True \<rparr>;
          s2 =
            (case outcome of
               Rejected \<Rightarrow> s1\<lparr> results := Some DEFAULT_RESULTS \<rparr>
             | Resolved None \<Rightarrow> s1\<lparr> results := Some DEFAULT_RESULTS \<rparr>
             | Resolved (Some data_results) \<Rightarrow>
                 if length data_results > 0 then
                   (let transformedData =
                      \<lparr> success = True,
                        best_scenario = scenario (hd data_results),
                        scenarios = map (\<lambda>r.
                          \<lparr> name = scenario r,
                            train_size = 700,
                            test_size = 300,
                            metrics = api_metrics r,
                            confusion_matrix =
                              \<lparr> matrix = [[24, 8, 9], [7, 122, 17], [1, 30, 82]],
                                labels = [''Gaming'', ''Photographer'', ''Daily''],
                                tp = 228, tn = 0, fp = 72, fn = 0 \<rparr> \<rparr>) data_results \<rparr>
                    in s1\<lparr> results := Some transformedData \<rparr>)
                 else s1\<lparr> results := Some DEFAULT_RESULTS \<rparr>)
      in s2\<lparr> loading := False \<rparr>)"

text \<open>
  What \<^verbatim>\<open>await evaluationAPI.runEvaluation(config)\<close> does: it throws, or it yields
  \<^verbatim>\<open>data\<close>, which \<^verbatim>\<open>runEvaluation\<close> stores as it is.
\<close>

datatype runEvaluation_outcome = RunRejected | RunResolved results

definition runEvaluation :: "runEvaluation_outcome \<Rightarrow> evaluation_state \<Rightarrow> evaluation_state" where
  "runEvaluation outcome s =
     (let s1 = s\<lparr> evaluating := True \<rparr>;
          s2 = s1\<lparr> evaluation_toasts := evaluation_toasts s1 @ [ToastMenjalankan] \<rparr>;
          s3 =
            (case outcome of
               RunResolved data \<Rightarrow>
                 s2\<lparr> results := Some data,
                     evaluation_toasts := evaluation_toasts s2 @ [ToastSelesai] \<rparr>
             | RunRejected \<Rightarrow> s2\<lparr> evaluation_toasts := evaluation_toasts s2 @ [ToastGagal] \<rparr>)
      in s3\<lparr> evaluating := False \<rparr>)"

text \<open>\<^verbatim>\<open>results?.scenarios\<close>, with the empty list for \<^verbatim>\<open>undefined\<close>.\<close>

definition stored_scenarios :: "evaluation_state \<Rightarrow> scenario_entry list" where
  "stored_scenarios s = (case results s of None \<Rightarrow> [] | Some res \<Rightarrow> scenarios res)"

text \<open>\<^verbatim>\<open>results?.scenarios?.[0]\<close> at render time.\<close>

definition first_scenario :: "evaluation_state \<Rightarrow> scenario_entry option" where
  "first_scenario s =
     (case results s of
        None \<Rightarrow> None
      | Some res \<Rightarrow> (case scenarios res of [] \<Rightarrow> None | sc # _ \<Rightarrow> Some sc))"

text \<open>The matrix that the page puts in its table.\<close>

definition confusionMatrix :: "evaluation_state \<Rightarrow> nat list list" where
  "confusionMatrix s =
     (case first_scenario s of
        None \<Rightarrow> [[24, 8, 9], [7, 122, 17], [1, 30, 82]]
      | Some sc \<Rightarrow> matrix (confusion_matrix sc))"

section \<open>Quantities derived from a confusion matrix\<close>

text \<open>Sums over a square matrix of counts, rows being the actual classes.\<close>

definition diagonal :: "nat list list \<Rightarrow> nat list" where
  "diagonal m = map (\<lambda>i. m ! i ! i) [0..<length m]"

definition trace :: "nat list list \<Rightarrow> nat" where
  "trace m = sum_list (diagonal m)"

definition row_sum :: "nat list list \<Rightarrow> nat \<Rightarrow> nat" where
  "row_sum m i = sum_list (m ! i)"

definition column_sum :: "nat list list \<Rightarrow> nat \<Rightarrow> nat" where
  "column_sum m j = sum_list (map (\<lambda>row. row ! j) m)"

definition matrix_total :: "nat list list \<Rightarrow> nat" where
  "matrix_total m = sum_list (concat m)"

text \<open>
  Modelled from the spec: the precision of a class, as the Split Evaluator derives it from
  the confusion matrix (section 4.7, step 5): the diagonal entry over the column sum, and
  0 for a class that is never predicted. The evaluation runs on the server, whose code is
  not among the sources; the page only shows its figures.
\<close>

definition class_precision :: "nat list list \<Rightarrow> nat \<Rightarrow> rat" where
  "class_precision m i =
     (if column_sum m i = 0 then 0 else of_nat (m ! i ! i) / of_nat (column_sum m i))"

text \<open>
  Modelled from the spec: the recall of a class (section 4.7, step 5): the diagonal entry
  over the row sum, and 0 for a class without support.
\<close>

definition class_recall :: "nat list list \<Rightarrow> nat \<Rightarrow> rat" where
  "class_recall m i =
     (if row_sum m i = 0 then 0 else of_nat (m ! i ! i) / of_nat (row_sum m i))"

text \<open>
  Modelled from the spec: F1 is the harmonic mean of precision and recall, 0 when both
  are 0.
\<close>

definition class_f1 :: "nat list list \<Rightarrow> nat \<Rightarrow> rat" where
  "class_f1 m i =
     (let p = class_precision m i; r = class_recall m i
      in if p + r = 0 then 0 else 2 * p * r / (p + r))"

text \<open>
  Modelled from the spec: a weighted average weights the metric of each class by the
  support of the class, its row sum, over the total.
\<close>

definition weighted_average :: "(nat list list \<Rightarrow> nat \<Rightarrow> rat) \<Rightarrow> nat list list \<Rightarrow> rat" where
  "weighted_average metric m =
     sum_list (map (\<lambda>i. of_nat (row_sum m i) / of_nat (matrix_total m) * metric m i)
                   [0..<length m])"

text \<open>Rounding to \<open>d\<close> decimal places, a half going up.\<close>

definition round_to :: "nat \<Rightarrow> rat \<Rightarrow> rat" where
  "round_to d x = of_int (round (x * 10 ^ d)) / 10 ^ d"

section \<open>Similarity conversion\<close>

text \<open>
  Modelled from the spec: the Similarity Converter (section 4.3),
  \<^verbatim>\<open>similarity(distance) = 1 / (1 + distance)\<close>. It runs on the server, whose code is not
  among the sources; the frontend only prints the formula. Distances are reals.
\<close>

definition similarity :: "real \<Rightarrow> real" where
  "similarity distance = 1 / (1 + distance)"

section \<open>Sample data\<close>

text \<open>Recommendations, server responses and a first state of the Evaluation page, for the
  concrete instances below.\<close>

definition rec_A :: recommendation where
  "rec_A = \<lparr> phone = \<lparr> Harga = Some 6499000, harga = None, Rating_pengguna = Some 4.5,
                                rating_pengguna = None \<rparr>, similarity_score = 0.5 \<rparr>"

definition rec_B :: recommendation where
  "rec_B = \<lparr> phone = \<lparr> Harga = None, harga = Some 9000000, Rating_pengguna = None,
                                rating_pengguna = Some 4.8 \<rparr>, similarity_score = 0.9 \<rparr>"

definition rec_C :: recommendation where
  "rec_C = \<lparr> phone = \<lparr> Harga = Some 3000000, harga = None, Rating_pengguna = None,
                                rating_pengguna = None \<rparr>, similarity_score = 0.8 \<rparr>"

definition api_70_30 :: api_result where
  "api_70_30 = \<lparr> scenario = ''70-30'',
                 api_metrics = \<lparr> accuracy = 76.0, precision = 75.96, recall = 76.0,
                                 f1_score = 75.74 \<rparr> \<rparr>"

definition api_80_20 :: api_result where
  "api_80_20 = \<lparr> scenario = ''80-20'',
                 api_metrics = \<lparr> accuracy = 81.5, precision = 80.9, recall = 81.5,
                                 f1_score = 81.1 \<rparr> \<rparr>"

definition api_70_30_renamed :: api_result where
  "api_70_30_renamed = \<lparr> scenario = ''80-20'',
                         api_metrics = \<lparr> accuracy = 76.0, precision = 75.96, recall = 76.0,
                                         f1_score = 75.74 \<rparr> \<rparr>"

definition run_response :: results where
  "run_response =
     \<lparr> success = True,
       best_scenario = ''70-30'',
       scenarios = [
         \<lparr> name = ''70-30'',
           train_size = 700,
           test_size = 300,
           metrics = \<lparr> accuracy = 80.0, precision = 80.1, recall = 80.0, f1_score = 79.9 \<rparr>,
           confusion_matrix =
             \<lparr> matrix = [[30, 5, 6], [7, 125, 14], [3, 25, 85]],
               labels = [''Gaming'', ''Photographer'', ''Daily''],
               tp = 240, tn = 0, fp = 60, fn = 0 \<rparr> \<rparr>] \<rparr>"

definition state_0 :: evaluation_state where
  "state_0 = \<lparr> loading = True, evaluating = False, results = None, evaluation_toasts = [] \<rparr>"

section \<open>Properties of the Number arithmetic\<close>

lemma floor_rat_numeral: "\<lfloor>numeral a / numeral b :: rat\<rfloor> = numeral a div numeral b"
  using floor_divide_of_int_eq [of "numeral a" "numeral b", where ?'a = rat] by simp

lemma ceiling_rat_numeral: "\<lceil>numeral a / numeral b :: rat\<rceil> = - (- numeral a div numeral b)"
  using ceiling_divide_eq_div [of "numeral a" "numeral b", where ?'a = rat] by simp

text \<open>Evaluating \<open>binary64\<close> step by step: exponent, significand, value.\<close>

lemma binary64_eval:
  assumes "0 < a" and "ilog2 a = k" and "max (k - 52) (- 1074) = e"
    and "round_half_even (a / pow2 e) = m" and "of_int m * pow2 e = v" and "v < 2 ^ 1024"
  shows "binary64 a = Double v" and "binary64 (- a) = Double (- v)"
proof -
  from assms(1) have "a \<noteq> 0" "\<bar>a\<bar> = a" "sgn a = 1" by simp_all
  with assms show "binary64 a = Double v"
    by (simp add: binary64_def Let_def)
  from assms(1) have "- a \<noteq> 0" "\<bar>- a\<bar> = a" "sgn (- a) = - 1" "\<not> 0 < - a" by simp_all
  with assms show "binary64 (- a) = Double (- v)"
    by (simp add: binary64_def Let_def)
qed

lemma bit_length_le: "m < 2 ^ k \<Longrightarrow> bit_length m \<le> k"
proof (induction k arbitrary: m)
  case 0
  then show ?case by (simp add: bit_length.simps)
next
  case (Suc k)
  from Suc.prems have "m div 2 < 2 ^ k" by simp
  with Suc.IH have "bit_length (m div 2) \<le> k" by blast
  then show ?case by (subst bit_length.simps) simp
qed

lemma round_half_even_of_int: "round_half_even (of_int j) = j"
  by (simp add: round_half_even_def Let_def)

text \<open>A whole number of magnitude below \<open>2 ^ 53\<close> is a double: rounding leaves it alone.\<close>

lemma binary64_of_nat:
  assumes "0 < n" "n < 2 ^ 53"
  shows "binary64 (of_nat n) = Double (of_nat n)"
    and "binary64 (- of_nat n) = Double (- of_nat n)"
proof -
  let ?a = "of_nat n :: rat"
  have a1: "1 \<le> ?a" using assms(1) by simp
  have fl: "nat \<lfloor>?a\<rfloor> = n" by simp
  from assms(2) have "bit_length n \<le> 53" by (rule bit_length_le)
  with a1 fl have k: "ilog2 ?a \<le> 52" by (simp add: ilog2_def)
  define e where "e = max (ilog2 ?a - 52) (- 1074)"
  from k have e0: "e \<le> 0" by (simp add: e_def)
  define j where "j = nat (- e)"
  from e0 have p: "pow2 e = 1 / 2 ^ j"
    by (cases "e = 0") (simp_all add: pow2_def j_def)
  have "?a / pow2 e = of_int (int n * 2 ^ j)" by (simp add: p)
  then have m: "round_half_even (?a / pow2 e) = int n * 2 ^ j"
    by (simp only: round_half_even_of_int)
  have v: "of_int (int n * 2 ^ j) * pow2 e = ?a" by (simp add: p)
  have "(of_nat n :: rat) < of_nat (2 ^ 53)" using assms(2) by (simp only: of_nat_less_iff)
  also have "\<dots> < 2 ^ 1024" by simp
  finally have small: "?a < 2 ^ 1024" .
  from assms(1) have pos: "0 < ?a" by simp
  show "binary64 (of_nat n) = Double (of_nat n)"
    by (rule binary64_eval(1) [OF pos refl e_def [symmetric] m v small])
  show "binary64 (- of_nat n) = Double (- of_nat n)"
    by (rule binary64_eval(2) [OF pos refl e_def [symmetric] m v small])
qed

lemma binary64_of_int:
  assumes "\<bar>n\<bar> < 2 ^ 53"
  shows "binary64 (of_int n) = Double (of_int n)"
proof -
  consider "n = 0" | "0 < n" | "n < 0" by linarith
  then show ?thesis
  proof cases
    case 1
    then show ?thesis by (simp add: binary64_def)
  next
    case 2
    with assms have "0 < nat n" "nat n < 2 ^ 53" by (simp_all add: nat_less_iff)
    from binary64_of_nat(1) [OF this] 2 show ?thesis by simp
  next
    case 3
    with assms have "0 < nat (- n)" "nat (- n) < 2 ^ 53" by (simp_all add: nat_less_iff)
    from binary64_of_nat(2) [OF this] 3 show ?thesis by simp
  qed
qed

text \<open>So a left-to-right sum of whole numbers is exact while the magnitudes stay small.\<close>

lemma foldl_add64_whole:
  "\<bar>acc\<bar> + sum_list (map abs ns) < 2 ^ 53 \<Longrightarrow>
   foldl (\<lambda>sum val. add64 sum val) (Double (of_int acc)) (map (\<lambda>n. Double (of_int n)) ns)
     = Double (of_int (acc + sum_list ns))"
proof (induction ns arbitrary: acc)
  case Nil
  then show ?case by simp
next
  case (Cons n ns)
  have nonneg: "0 \<le> sum_list (map abs ns)"
    by (rule sum_list_nonneg) auto
  from Cons.prems nonneg have "\<bar>acc + n\<bar> < 2 ^ 53" by simp
  then have step: "add64 (Double (of_int acc)) (Double (of_int n)) = Double (of_int (acc + n))"
    using binary64_of_int [of "acc + n"] by simp
  from Cons.prems have "\<bar>acc + n\<bar> + sum_list (map abs ns) < 2 ^ 53" by simp
  from Cons.IH [OF this] step show ?case
    by (simp add: add.assoc)
qed

text \<open>
  The doubles that the decimal literals 45.1, 4.1, 6.8, 60.2 and 100.2 denote, and the
  sums that occur below, each evaluated by its exponent and significand.
\<close>

lemma binary64_45_1: "binary64 (451 / 10) = Double (6347260724825293 / 140737488355328)"
  by (rule binary64_eval [where k = "5" and e = "- 47" and m = "6347260724825293"])
    (simp_all add: ilog2_def pow2_def round_half_even_def Let_def bit_length.simps
       floor_rat_numeral ceiling_rat_numeral)

lemma binary64_4_1: "binary64 (41 / 10) = Double (2308094809027379 / 562949953421312)"
  by (rule binary64_eval [where k = "2" and e = "- 50" and m = "4616189618054758"])
    (simp_all add: ilog2_def pow2_def round_half_even_def Let_def bit_length.simps
       floor_rat_numeral ceiling_rat_numeral)

lemma binary64_6_8: "binary64 (68 / 10) = Double (7656119366529843 / 1125899906842624)"
  by (rule binary64_eval [where k = "2" and e = "- 50" and m = "7656119366529843"])
    (simp_all add: ilog2_def pow2_def round_half_even_def Let_def bit_length.simps
       floor_rat_numeral ceiling_rat_numeral)

lemma binary64_60_2: "binary64 (602 / 10) = Double (4236198399495373 / 70368744177664)"
  by (rule binary64_eval [where k = "5" and e = "- 47" and m = "8472396798990746"])
    (simp_all add: ilog2_def pow2_def round_half_even_def Let_def bit_length.simps
       floor_rat_numeral ceiling_rat_numeral)

lemma binary64_100_2: "binary64 (1002 / 10) = Double (7050948166601933 / 70368744177664)"
  by (rule binary64_eval [where k = "6" and e = "- 46" and m = "7050948166601933"])
    (simp_all add: ilog2_def pow2_def round_half_even_def Let_def bit_length.simps
       floor_rat_numeral ceiling_rat_numeral)

lemma sum_forward_1:
  "add64 (Double 0) (Double (6347260724825293 / 140737488355328)) = Double (6347260724825293 / 140737488355328)"
proof -
  have s: "0 + 6347260724825293 / 140737488355328 = (6347260724825293 / 140737488355328 :: rat)"
    by simp
  have "binary64 (6347260724825293 / 140737488355328) = Double (6347260724825293 / 140737488355328)"
    by (rule binary64_eval [where k = "5" and e = "- 47" and m = "6347260724825293"])
    (simp_all add: ilog2_def pow2_def round_half_even_def Let_def bit_length.simps
       floor_rat_numeral ceiling_rat_numeral)
  then show ?thesis
    unfolding add64.simps s .
qed

lemma sum_forward_2:
  "add64 (Double (6347260724825293 / 140737488355328)) (Double 43) = Double (3099743181026099 / 35184372088832)"
proof -
  have s: "6347260724825293 / 140737488355328 + 43 = (12398972724104397 / 140737488355328 :: rat)"
    by simp
  have "binary64 (12398972724104397 / 140737488355328) = Double (3099743181026099 / 35184372088832)"
    by (rule binary64_eval [where k = "6" and e = "- 46" and m = "6199486362052198"])
    (simp_all add: ilog2_def pow2_def round_half_even_def Let_def bit_length.simps
       floor_rat_numeral ceiling_rat_numeral)
  then show ?thesis
    unfolding add64.simps s .
qed

lemma sum_forward_3:
  "add64 (Double (3099743181026099 / 35184372088832)) (Double (2308094809027379 / 562949953421312)) = Double (1621999553295155 / 17592186044416)"
proof -
  have s: "3099743181026099 / 35184372088832 + 2308094809027379 / 562949953421312 = (51903985705444963 / 562949953421312 :: rat)"
    by simp
  have "binary64 (51903985705444963 / 562949953421312) = Double (1621999553295155 / 17592186044416)"
    by (rule binary64_eval [where k = "6" and e = "- 46" and m = "6487998213180620"])
    (simp_all add: ilog2_def pow2_def round_half_even_def Let_def bit_length.simps
       floor_rat_numeral ceiling_rat_numeral)
  then show ?thesis
    unfolding add64.simps s .
qed

lemma sum_forward_4:
  "add64 (Double (1621999553295155 / 17592186044416)) (Double (7656119366529843 / 1125899906842624)) = Double (6966505673588735 / 70368744177664)"
proof -
  have s: "1621999553295155 / 17592186044416 + 7656119366529843 / 1125899906842624 = (111464090777419763 / 1125899906842624 :: rat)"
    by simp
  have "binary64 (111464090777419763 / 1125899906842624) = Double (6966505673588735 / 70368744177664)"
    by (rule binary64_eval [where k = "6" and e = "- 46" and m = "6966505673588735"])
    (simp_all add: ilog2_def pow2_def round_half_even_def Let_def bit_length.simps
       floor_rat_numeral ceiling_rat_numeral)
  then show ?thesis
    unfolding add64.simps s .
qed

lemma sum_backward_1:
  "add64 (Double 0) (Double (7656119366529843 / 1125899906842624)) = Double (7656119366529843 / 1125899906842624)"
proof -
  have s: "0 + 7656119366529843 / 1125899906842624 = (7656119366529843 / 1125899906842624 :: rat)"
    by simp
  have "binary64 (7656119366529843 / 1125899906842624) = Double (7656119366529843 / 1125899906842624)"
    by (rule binary64_eval [where k = "2" and e = "- 50" and m = "7656119366529843"])
    (simp_all add: ilog2_def pow2_def round_half_even_def Let_def bit_length.simps
       floor_rat_numeral ceiling_rat_numeral)
  then show ?thesis
    unfolding add64.simps s .
qed

lemma sum_backward_2:
  "add64 (Double (7656119366529843 / 1125899906842624)) (Double (2308094809027379 / 562949953421312)) = Double (1534038623073075 / 140737488355328)"
proof -
  have s: "7656119366529843 / 1125899906842624 + 2308094809027379 / 562949953421312 = (12272308984584601 / 1125899906842624 :: rat)"
    by simp
  have "binary64 (12272308984584601 / 1125899906842624) = Double (1534038623073075 / 140737488355328)"
    by (rule binary64_eval [where k = "3" and e = "- 49" and m = "6136154492292300"])
    (simp_all add: ilog2_def pow2_def round_half_even_def Let_def bit_length.simps
       floor_rat_numeral ceiling_rat_numeral)
  then show ?thesis
    unfolding add64.simps s .
qed

lemma sum_backward_3:
  "add64 (Double (1534038623073075 / 140737488355328)) (Double 43) = Double (7585750622352179 / 140737488355328)"
proof -
  have s: "1534038623073075 / 140737488355328 + 43 = (7585750622352179 / 140737488355328 :: rat)"
    by simp
  have "binary64 (7585750622352179 / 140737488355328) = Double (7585750622352179 / 140737488355328)"
    by (rule binary64_eval [where k = "5" and e = "- 47" and m = "7585750622352179"])
    (simp_all add: ilog2_def pow2_def round_half_even_def Let_def bit_length.simps
       floor_rat_numeral ceiling_rat_numeral)
  then show ?thesis
    unfolding add64.simps s .
qed

lemma sum_backward_4:
  "add64 (Double (7585750622352179 / 140737488355328)) (Double (6347260724825293 / 140737488355328)) = Double 99"
proof -
  have s: "7585750622352179 / 140737488355328 + 6347260724825293 / 140737488355328 = (99 :: rat)"
    by simp
  have "binary64 99 = Double 99"
    by (rule binary64_eval [where k = "6" and e = "- 46" and m = "6966505673588736"])
    (simp_all add: ilog2_def pow2_def round_half_even_def Let_def bit_length.simps
       floor_rat_numeral ceiling_rat_numeral)
  then show ?thesis
    unfolding add64.simps s .
qed

lemma sum_100_2_1:
  "add64 (Double 0) (Double (4236198399495373 / 70368744177664)) = Double (4236198399495373 / 70368744177664)"
proof -
  have s: "0 + 4236198399495373 / 70368744177664 = (4236198399495373 / 70368744177664 :: rat)"
    by simp
  have "binary64 (4236198399495373 / 70368744177664) = Double (4236198399495373 / 70368744177664)"
    by (rule binary64_eval [where k = "5" and e = "- 47" and m = "8472396798990746"])
    (simp_all add: ilog2_def pow2_def round_half_even_def Let_def bit_length.simps
       floor_rat_numeral ceiling_rat_numeral)
  then show ?thesis
    unfolding add64.simps s .
qed

lemma sum_100_2_2:
  "add64 (Double (4236198399495373 / 70368744177664)) (Double 40) = Double (7050948166601933 / 70368744177664)"
proof -
  have s: "4236198399495373 / 70368744177664 + 40 = (7050948166601933 / 70368744177664 :: rat)"
    by simp
  have "binary64 (7050948166601933 / 70368744177664) = Double (7050948166601933 / 70368744177664)"
    by (rule binary64_eval [where k = "6" and e = "- 46" and m = "7050948166601933"])
    (simp_all add: ilog2_def pow2_def round_half_even_def Let_def bit_length.simps
       floor_rat_numeral ceiling_rat_numeral)
  then show ?thesis
    unfolding add64.simps s .
qed

lemma sum_101_1:
  "add64 (Double 0) (Double 101) = Double 101"
proof -
  have s: "0 + 101 = (101 :: rat)"
    by simp
  have "binary64 101 = Double 101"
    by (rule binary64_eval [where k = "6" and e = "- 46" and m = "7107243161944064"])
    (simp_all add: ilog2_def pow2_def round_half_even_def Let_def bit_length.simps
       floor_rat_numeral ceiling_rat_numeral)
  then show ?thesis
    unfolding add64.simps s .
qed

lemma sum_101_2:
  "add64 (Double 101) (Double (1 / 1125899906842624)) = Double 101"
proof -
  have s: "101 + 1 / 1125899906842624 = (113715890591105025 / 1125899906842624 :: rat)"
    by simp
  have "binary64 (113715890591105025 / 1125899906842624) = Double 101"
    by (rule binary64_eval [where k = "6" and e = "- 46" and m = "7107243161944064"])
    (simp_all add: ilog2_def pow2_def round_half_even_def Let_def bit_length.simps
       floor_rat_numeral ceiling_rat_numeral)
  then show ?thesis
    unfolding add64.simps s .
qed

section \<open>Properties of weight validation\<close>

lemma total_validateWeights:
  "total (validateWeights w) = foldl (\<lambda>sum val. add64 sum val) (Double 0) (Object_values w)"
  by (simp add: validateWeights_def Let_def)

lemma isValid_validateWeights:
  "isValid (validateWeights w) =
     (le64 (Double 99) (total (validateWeights w)) \<and> le64 (total (validateWeights w)) (Double 101)
      \<and> Double 0 \<notin> set (Object_values w))"
  by (auto simp: validateWeights_def Let_def ge64_def list_ex_iff)

lemma Object_values_whole:
  "Object_values (map (\<lambda>(k, n). (k, Double (of_int n))) kns)
     = map (\<lambda>n. Double (of_int n)) (map snd kns)"
  by (induction kns) (auto simp: Object_values_def)

lemma total_whole:
  assumes "sum_list (map (\<lambda>(k, n). \<bar>n\<bar>) kns) < 2 ^ 53"
  shows "total (validateWeights (map (\<lambda>(k, n). (k, Double (of_int n))) kns))
           = Double (of_int (sum_list (map snd kns)))"
proof -
  have "map (\<lambda>(k, n). \<bar>n\<bar>) kns = map abs (map snd kns)"
    by (induction kns) auto
  with assms have "\<bar>0::int\<bar> + sum_list (map abs (map snd kns)) < 2 ^ 53" by simp
  from foldl_add64_whole [OF this] show ?thesis
    by (simp add: total_validateWeights Object_values_whole)
qed

lemma isValid_whole:
  assumes "sum_list (map (\<lambda>(k, n). \<bar>n\<bar>) kns) < 2 ^ 53"
  shows "isValid (validateWeights (map (\<lambda>(k, n). (k, Double (of_int n))) kns))
           \<longleftrightarrow> 99 \<le> sum_list (map snd kns) \<and> sum_list (map snd kns) \<le> 101
                \<and> 0 \<notin> set (map snd kns)"
proof -
  have zero: "Double 0 \<in> set (map (\<lambda>n. Double (of_int n)) (map snd kns))
                \<longleftrightarrow> 0 \<in> set (map snd kns)"
    by (induction kns) auto
  have lo: "le64 (Double 99) (Double (of_int (sum_list (map snd kns))))
              \<longleftrightarrow> 99 \<le> sum_list (map snd kns)"
    by simp
  have hi: "le64 (Double (of_int (sum_list (map snd kns)))) (Double 101)
              \<longleftrightarrow> sum_list (map snd kns) \<le> 101"
    by simp
  show ?thesis
    unfolding isValid_validateWeights total_whole [OF assms] Object_values_whole zero lo hi
    by (rule refl)
qed

lemma total_45_1_first:
  "total (validateWeights
     [(''harga'', Double (6347260724825293 / 140737488355328)), (''ram'', Double 43),
      (''memori_internal'', Double (2308094809027379 / 562949953421312)), (''kamera'', Double (7656119366529843 / 1125899906842624))])
   = Double (6966505673588735 / 70368744177664)"
  by (simp only: total_validateWeights Object_values_def list.map snd_conv foldl.simps
      sum_forward_1 sum_forward_2 sum_forward_3 sum_forward_4)

lemma total_45_1_last:
  "total (validateWeights
     [(''kamera'', Double (7656119366529843 / 1125899906842624)), (''memori_internal'', Double (2308094809027379 / 562949953421312)),
      (''ram'', Double 43), (''harga'', Double (6347260724825293 / 140737488355328))])
   = Double 99"
  by (simp only: total_validateWeights Object_values_def list.map snd_conv foldl.simps
      sum_backward_1 sum_backward_2 sum_backward_3 sum_backward_4)

lemma total_101:
  "total (validateWeights [(''harga'', Double 101), (''ram'', Double (1 / 1125899906842624))])
   = Double 101"
  by (simp only: total_validateWeights Object_values_def list.map snd_conv foldl.simps
      sum_101_1 sum_101_2)

lemma total_60_2:
  "total (validateWeights [(''harga'', Double (4236198399495373 / 70368744177664)), (''ram'', Double 40)])
   = Double (7050948166601933 / 70368744177664)"
  by (simp only: total_validateWeights Object_values_def list.map snd_conv foldl.simps
      sum_100_2_1 sum_100_2_2)

text \<open>
  Claim C1, as stated: \<^verbatim>\<open>isValid\<close> holds exactly when the sum of the values lies in
  [99,101] and no value is 0. The code adds doubles from left to right, and each addition
  rounds. The weights 45.1, 43, 4.1, 6.8 are not zero and the doubles they denote sum to a
  number within [99,101]; in this order the computed total is 98.99999999999999 and the
  vector is rejected, in the reverse order the total is 99 and it is accepted. The weights
  101 and \<open>2 ^ - 50\<close> sum to more than 101 and are accepted, the computed total being 101.
\<close>

theorem validateWeights_exact_sum_counterexample:
  "\<not> isValid (validateWeights
       [(''harga'', binary64 (451 / 10)), (''ram'', Double 43),
        (''memori_internal'', binary64 (41 / 10)), (''kamera'', binary64 (68 / 10))])
   \<and> isValid (validateWeights
       [(''kamera'', binary64 (68 / 10)), (''memori_internal'', binary64 (41 / 10)),
        (''ram'', Double 43), (''harga'', binary64 (451 / 10))])
   \<and> binary64 (451 / 10) = Double (6347260724825293 / 140737488355328)
   \<and> binary64 (41 / 10) = Double (2308094809027379 / 562949953421312)
   \<and> binary64 (68 / 10) = Double (7656119366529843 / 1125899906842624)
   \<and> (99::rat) \<le> 6347260724825293 / 140737488355328 + 43
         + 2308094809027379 / 562949953421312 + 7656119366529843 / 1125899906842624
   \<and> 6347260724825293 / 140737488355328 + 43
         + 2308094809027379 / 562949953421312 + 7656119366529843 / 1125899906842624 \<le> (101::rat)
   \<and> isValid (validateWeights [(''harga'', Double 101), (''ram'', Double (1 / 2 ^ 50))])
   \<and> (101::rat) < 101 + 1 / 2 ^ 50"
proof -
  have first: "\<not> isValid (validateWeights
       [(''harga'', Double (6347260724825293 / 140737488355328)), (''ram'', Double 43),
        (''memori_internal'', Double (2308094809027379 / 562949953421312)), (''kamera'', Double (7656119366529843 / 1125899906842624))])"
    unfolding isValid_validateWeights total_45_1_first by simp
  have last: "isValid (validateWeights
       [(''kamera'', Double (7656119366529843 / 1125899906842624)), (''memori_internal'', Double (2308094809027379 / 562949953421312)),
        (''ram'', Double 43), (''harga'', Double (6347260724825293 / 140737488355328))])"
    unfolding isValid_validateWeights total_45_1_last by (simp add: Object_values_def)
  have p50: "(1::rat) / 2 ^ 50 = 1 / 1125899906842624" by simp
  have big: "isValid (validateWeights [(''harga'', Double 101), (''ram'', Double (1 / 2 ^ 50))])"
    unfolding p50 isValid_validateWeights total_101 by (simp add: Object_values_def)
  have sums: "(99::rat) \<le> 6347260724825293 / 140737488355328 + 43
         + 2308094809027379 / 562949953421312 + 7656119366529843 / 1125899906842624"
    "6347260724825293 / 140737488355328 + 43
         + 2308094809027379 / 562949953421312 + 7656119366529843 / 1125899906842624 \<le> (101::rat)"
    "(101::rat) < 101 + 1 / 2 ^ 50"
    by simp_all
  from first last big sums show ?thesis
    unfolding binary64_45_1 binary64_4_1 binary64_6_8 by simp
qed

text \<open>
  Claim C1, amended. \<^verbatim>\<open>validateWeights\<close> reports \<^verbatim>\<open>isValid\<close> exactly when the total it
  computes, the values added from left to right in binary64 arithmetic starting from 0,
  lies in [99,101] and no value is 0. For whole-number weights whose magnitudes sum to
  less than \<open>2 ^ 53\<close> that total is the sum itself, and \<^verbatim>\<open>isValid\<close> holds exactly when the
  sum lies in [99,101] and no weight is 0. A vector whose computed total is 90 or 110 is
  rejected, a vector containing a 0 is rejected, and a vector without a 0 whose computed
  total is the double that 100.2 denotes is accepted.
\<close>

theorem validateWeights_isValid_computed_total:
  "(isValid (validateWeights w) \<longleftrightarrow>
      le64 (Double 99) (total (validateWeights w)) \<and> le64 (total (validateWeights w)) (Double 101)
      \<and> Double 0 \<notin> set (Object_values w))
   \<and> total (validateWeights w)
       = foldl (\<lambda>sum val. add64 sum val) (Double 0) (Object_values w)
   \<and> (sum_list (map (\<lambda>(k, n). \<bar>n\<bar>) kns) < 2 ^ 53 \<longrightarrow>
        total (validateWeights (map (\<lambda>(k, n). (k, Double (of_int n))) kns))
          = Double (of_int (sum_list (map snd kns)))
        \<and> (isValid (validateWeights (map (\<lambda>(k, n). (k, Double (of_int n))) kns))
             \<longleftrightarrow> 99 \<le> sum_list (map snd kns) \<and> sum_list (map snd kns) \<le> 101
                  \<and> 0 \<notin> set (map snd kns)))
   \<and> (total (validateWeights a) = Double 90 \<longrightarrow> \<not> isValid (validateWeights a))
   \<and> (total (validateWeights b) = Double 110 \<longrightarrow> \<not> isValid (validateWeights b))
   \<and> (Double 0 \<in> set (Object_values c) \<longrightarrow> \<not> isValid (validateWeights c))
   \<and> (total (validateWeights d) = binary64 (1002 / 10) \<and> Double 0 \<notin> set (Object_values d)
        \<longrightarrow> isValid (validateWeights d))"
proof -
  have low: "\<not> isValid (validateWeights a)" if "total (validateWeights a) = Double 90"
    unfolding isValid_validateWeights that by simp
  have high: "\<not> isValid (validateWeights b)" if "total (validateWeights b) = Double 110"
    unfolding isValid_validateWeights that by simp
  have zero: "\<not> isValid (validateWeights c)" if "Double 0 \<in> set (Object_values c)"
    using that by (simp add: isValid_validateWeights)
  have near: "isValid (validateWeights d)"
    if "total (validateWeights d) = binary64 (1002 / 10) \<and> Double 0 \<notin> set (Object_values d)"
  proof -
    from that [unfolded binary64_100_2]
    have t: "total (validateWeights d) = Double (7050948166601933 / 70368744177664)"
      and z: "Double 0 \<notin> set (Object_values d)"
      by blast+
    show ?thesis
      unfolding isValid_validateWeights t using z by simp
  qed
  show ?thesis
  proof (intro conjI impI)
    show "isValid (validateWeights w) \<longleftrightarrow>
      le64 (Double 99) (total (validateWeights w)) \<and> le64 (total (validateWeights w)) (Double 101)
      \<and> Double 0 \<notin> set (Object_values w)"
      by (rule isValid_validateWeights)
    show "total (validateWeights w)
       = foldl (\<lambda>sum val. add64 sum val) (Double 0) (Object_values w)"
      by (rule total_validateWeights)
  next
    assume h: "sum_list (map (\<lambda>(k, n). \<bar>n\<bar>) kns) < 2 ^ 53"
    show "total (validateWeights (map (\<lambda>(k, n). (k, Double (of_int n))) kns))
          = Double (of_int (sum_list (map snd kns)))"
      by (rule total_whole [OF h])
    show "isValid (validateWeights (map (\<lambda>(k, n). (k, Double (of_int n))) kns))
             \<longleftrightarrow> 99 \<le> sum_list (map snd kns) \<and> sum_list (map snd kns) \<le> 101
                  \<and> 0 \<notin> set (map snd kns)"
      by (rule isValid_whole [OF h])
  next
    assume "total (validateWeights a) = Double 90"
    then show "\<not> isValid (validateWeights a)" by (rule low)
  next
    assume "total (validateWeights b) = Double 110"
    then show "\<not> isValid (validateWeights b)" by (rule high)
  next
    assume "Double 0 \<in> set (Object_values c)"
    then show "\<not> isValid (validateWeights c)" by (rule zero)
  next
    assume "total (validateWeights d) = binary64 (1002 / 10) \<and> Double 0 \<notin> set (Object_values d)"
    then show "isValid (validateWeights d)" by (rule near)
  qed
qed

theorem validateWeights_isValid_computed_total_witness:
  "total (validateWeights [(''harga'', Double 50), (''ram'', Double 40)]) = Double 90
   \<and> \<not> isValid (validateWeights [(''harga'', Double 50), (''ram'', Double 40)])
   \<and> total (validateWeights [(''harga'', Double 60), (''ram'', Double 50)]) = Double 110
   \<and> \<not> isValid (validateWeights [(''harga'', Double 60), (''ram'', Double 50)])
   \<and> Double 0 \<in> set (Object_values [(''harga'', Double 100), (''ram'', Double 0)])
   \<and> \<not> isValid (validateWeights [(''harga'', Double 100), (''ram'', Double 0)])
   \<and> total (validateWeights [(''harga'', binary64 (602 / 10)), (''ram'', Double 40)])
       = binary64 (1002 / 10)
   \<and> isValid (validateWeights [(''harga'', binary64 (602 / 10)), (''ram'', Double 40)])
   \<and> isValid (validateWeights [(''harga'', Double 60), (''ram'', Double 40)])"
proof -
  let ?f = "\<lambda>(k::string, n::int). (k, Double (of_int n))"
  let ?a = "[(''harga'', Double 50), (''ram'', Double 40)]"
  let ?b = "[(''harga'', Double 60), (''ram'', Double 50)]"
  let ?c = "[(''harga'', Double 100), (''ram'', Double 0)]"
  let ?d = "[(''harga'', binary64 (602 / 10)), (''ram'', Double 40)]"
  have m90: "map ?f [(''harga'', 50), (''ram'', 40)] = ?a"
    and m110: "map ?f [(''harga'', 60), (''ram'', 50)] = ?b"
    and m100: "map ?f [(''harga'', 60), (''ram'', 40)] = [(''harga'', Double 60), (''ram'', Double 40)]"
    by simp_all
  have small: "sum_list (map (\<lambda>(k::string, n::int). \<bar>n\<bar>) [(''harga'', 50), (''ram'', 40)]) < 2 ^ 53"
    "sum_list (map (\<lambda>(k::string, n::int). \<bar>n\<bar>) [(''harga'', 60), (''ram'', 50)]) < 2 ^ 53"
    "sum_list (map (\<lambda>(k::string, n::int). \<bar>n\<bar>) [(''harga'', 60), (''ram'', 40)]) < 2 ^ 53"
    by simp_all
  from validateWeights_isValid_computed_total
    [where kns = "[(''harga'', 50), (''ram'', 40)]" and w = ?a and a = ?a and b = ?b and c = ?c
       and d = ?d] small(1)
  have "total (validateWeights (map ?f [(''harga'', 50), (''ram'', 40)]))
          = Double (of_int (sum_list (map snd [(''harga'' :: string, 50 :: int), (''ram'', 40)])))"
    by blast
  then have t90: "total (validateWeights ?a) = Double 90"
    unfolding m90 by simp
  from validateWeights_isValid_computed_total
    [where kns = "[(''harga'', 60), (''ram'', 50)]" and w = ?a and a = ?a and b = ?b and c = ?c
       and d = ?d] small(2)
  have "total (validateWeights (map ?f [(''harga'', 60), (''ram'', 50)]))
          = Double (of_int (sum_list (map snd [(''harga'' :: string, 60 :: int), (''ram'', 50)])))"
    by blast
  then have t110: "total (validateWeights ?b) = Double 110"
    unfolding m110 by simp
  from validateWeights_isValid_computed_total
    [where kns = "[(''harga'', 60), (''ram'', 40)]" and w = ?a and a = ?a and b = ?b and c = ?c
       and d = ?d] small(3)
  have "isValid (validateWeights (map ?f [(''harga'', 60), (''ram'', 40)]))
          \<longleftrightarrow> 99 \<le> sum_list (map snd [(''harga'' :: string, 60 :: int), (''ram'', 40)])
              \<and> sum_list (map snd [(''harga'' :: string, 60 :: int), (''ram'', 40)]) \<le> 101
              \<and> 0 \<notin> set (map snd [(''harga'' :: string, 60 :: int), (''ram'', 40)])"
    by blast
  then have v100: "isValid (validateWeights [(''harga'', Double 60), (''ram'', Double 40)])"
    unfolding m100 by simp
  have z: "Double 0 \<in> set (Object_values ?c)"
    by (simp add: Object_values_def)
  have t1002: "total (validateWeights ?d) = binary64 (1002 / 10)"
    unfolding binary64_60_2 binary64_100_2 by (rule total_60_2)
  have nz: "Double 0 \<notin> set (Object_values ?d)"
    unfolding binary64_60_2 by (simp add: Object_values_def)
  note inst = validateWeights_isValid_computed_total
    [where kns = "[]" and w = ?a and a = ?a and b = ?b and c = ?c and d = ?d]
  from inst t90 have na: "\<not> isValid (validateWeights ?a)" by blast
  from inst t110 have nb: "\<not> isValid (validateWeights ?b)" by blast
  from inst z have nc: "\<not> isValid (validateWeights ?c)" by blast
  from inst t1002 nz have vd: "isValid (validateWeights ?d)" by blast
  from t90 na t110 nb z nc t1002 vd v100 show ?thesis
    by (intro conjI)
qed

text \<open>
  Claim C4. Every value of a weight vector that \<^verbatim>\<open>validateWeights\<close> reports valid should
  lie in (0,100]: the documentation of the system gives the weights as percentages from 0
  to 100 with a minimum of 1, and the inputs of the Admin page carry these bounds. The
  validator tests the total and the presence of a zero only. The weights -50 and 150 have
  the total 100 and no zero: they are reported valid, and \<^verbatim>\<open>saveWeights\<close> sends them to
  \<^verbatim>\<open>adminAPI.updateWeights\<close> and keeps them as \<^verbatim>\<open>originalWeights\<close>.
\<close>

theorem validateWeights_accepts_out_of_range:
  "total (validateWeights [(''harga'', Double (- 50)), (''ram'', Double 150)]) = Double 100
   \<and> isValid (validateWeights [(''harga'', Double (- 50)), (''ram'', Double 150)])
   \<and> updateWeights_calls (saveWeights True
        \<lparr> weights = [(''harga'', Double (- 50)), (''ram'', Double 150)],
          originalWeights = [(''harga'', Double 60), (''ram'', Double 40)],
          saving = False, toasts = [], updateWeights_calls = [] \<rparr>)
       = [[(''harga'', Double (- 50)), (''ram'', Double 150)]]
   \<and> originalWeights (saveWeights True
        \<lparr> weights = [(''harga'', Double (- 50)), (''ram'', Double 150)],
          originalWeights = [(''harga'', Double 60), (''ram'', Double 40)],
          saving = False, toasts = [], updateWeights_calls = [] \<rparr>)
       = [(''harga'', Double (- 50)), (''ram'', Double 150)]"
proof -
  let ?f = "\<lambda>(k::string, n::int). (k, Double (of_int n))"
  have m: "map ?f [(''harga'', - 50), (''ram'', 150)]
             = [(''harga'', Double (- 50)), (''ram'', Double 150)]"
    by simp
  have small: "sum_list (map (\<lambda>(k::string, n::int). \<bar>n\<bar>) [(''harga'', - 50), (''ram'', 150)]) < 2 ^ 53"
    by simp
  have t: "total (validateWeights [(''harga'', Double (- 50)), (''ram'', Double 150)]) = Double 100"
    using total_whole [OF small] unfolding m by simp
  have v: "isValid (validateWeights [(''harga'', Double (- 50)), (''ram'', Double 150)])"
    using isValid_whole [OF small] unfolding m by simp
  from t v show ?thesis
    by (simp add: saveWeights_def Let_def)
qed

text \<open>
  Claim C5. When \<^verbatim>\<open>validateWeights\<close> reports the current weights invalid,
  \<^verbatim>\<open>saveWeights\<close> returns without a call of \<^verbatim>\<open>adminAPI.updateWeights\<close> and leaves
  \<^verbatim>\<open>originalWeights\<close> (and the weights being edited) as they were; whatever the
  outcome, every payload that was sent had been reported valid.
\<close>

theorem saveWeights_invalid_not_sent:
  "(\<not> isValid (validateWeights (weights s)) \<longrightarrow>
      updateWeights_calls (saveWeights resolves s) = updateWeights_calls s
      \<and> originalWeights (saveWeights resolves s) = originalWeights s
      \<and> weights (saveWeights resolves s) = weights s
      \<and> saving (saveWeights resolves s) = saving s)
   \<and> (isValid (validateWeights (weights s)) \<longrightarrow>
      updateWeights_calls (saveWeights resolves s) = updateWeights_calls s @ [weights s])"
  by (simp add: saveWeights_def Let_def)

theorem saveWeights_invalid_not_sent_witness:
  "\<not> isValid (validateWeights [(''harga'', Double 50), (''ram'', Double 0)])
   \<and> updateWeights_calls (saveWeights True
        \<lparr> weights = [(''harga'', Double 50), (''ram'', Double 0)],
          originalWeights = [(''harga'', Double 60), (''ram'', Double 40)],
          saving = False, toasts = [], updateWeights_calls = [] \<rparr>) = []
   \<and> originalWeights (saveWeights True
        \<lparr> weights = [(''harga'', Double 50), (''ram'', Double 0)],
          originalWeights = [(''harga'', Double 60), (''ram'', Double 40)],
          saving = False, toasts = [], updateWeights_calls = [] \<rparr>)
       = [(''harga'', Double 60), (''ram'', Double 40)]
   \<and> isValid (validateWeights [(''harga'', Double 60), (''ram'', Double 40)])
   \<and> updateWeights_calls (saveWeights False
        \<lparr> weights = [(''harga'', Double 60), (''ram'', Double 40)],
          originalWeights = [(''harga'', Double 50), (''ram'', Double 50)],
          saving = False, toasts = [], updateWeights_calls = [] \<rparr>)
       = [[(''harga'', Double 60), (''ram'', Double 40)]]"
proof -
  have bad: "\<not> isValid (validateWeights [(''harga'', Double 50), (''ram'', Double 0)])"
    by (simp add: isValid_validateWeights Object_values_def)
  let ?f = "\<lambda>(k::string, n::int). (k, Double (of_int n))"
  have m: "map ?f [(''harga'', 60), (''ram'', 40)] = [(''harga'', Double 60), (''ram'', Double 40)]"
    by simp
  have small: "sum_list (map (\<lambda>(k::string, n::int). \<bar>n\<bar>) [(''harga'', 60), (''ram'', 40)]) < 2 ^ 53"
    by simp
  have good: "isValid (validateWeights [(''harga'', Double 60), (''ram'', Double 40)])"
    using isValid_whole [OF small] unfolding m by simp
  from bad good
    saveWeights_invalid_not_sent [of
      "\<lparr> weights = [(''harga'', Double 50), (''ram'', Double 0)],
         originalWeights = [(''harga'', Double 60), (''ram'', Double 40)],
         saving = False, toasts = [], updateWeights_calls = [] \<rparr>" True]
    saveWeights_invalid_not_sent [of
      "\<lparr> weights = [(''harga'', Double 60), (''ram'', Double 40)],
         originalWeights = [(''harga'', Double 50), (''ram'', Double 50)],
         saving = False, toasts = [], updateWeights_calls = [] \<rparr>" False]
  show ?thesis by simp
qed

section \<open>Properties of the phone card\<close>

lemma take_min_length: "take (min n (length xs)) xs = take n xs"
  by (cases "n \<le> length xs") (simp_all add: min_def)

lemma Array_slice_0: "Array_slice 0 n xs = take n xs"
  by (simp add: Array_slice_def Let_def take_min_length)

text \<open>
  Claim C7. The badges that \<^verbatim>\<open>PhoneCard\<close> renders for a list of highlights are the first
  \<open>min 3 (length hs)\<close> entries of the list, in their order: never more than 3.
\<close>

theorem PhoneCard_highlights_capped:
  "PhoneCard_highlights (Some hs) = take (min 3 (length hs)) hs
   \<and> length (PhoneCard_highlights (Some hs)) = min 3 (length hs)
   \<and> length (PhoneCard_highlights (Some hs)) \<le> 3
   \<and> PhoneCard_highlights None = []"
  by (simp add: PhoneCard_highlights_def Array_slice_0 take_min_length min_def)

theorem PhoneCard_highlights_capped_witness:
  "PhoneCard_highlights (Some [''Harga sesuai budget'', ''RAM 8GB'', ''Baterai 5000mAh'', ''Brand Samsung''])
     = [''Harga sesuai budget'', ''RAM 8GB'', ''Baterai 5000mAh'']
   \<and> PhoneCard_highlights (Some [''RAM 8GB'']) = [''RAM 8GB'']"
  using PhoneCard_highlights_capped
      [of "[''Harga sesuai budget'', ''RAM 8GB'', ''Baterai 5000mAh'', ''Brand Samsung'']"]
    PhoneCard_highlights_capped [of "[''RAM 8GB'']"]
  by simp

section \<open>Properties of camera resolution parsing\<close>

lemma match_digits_None_iff: "match_digits s = None \<longleftrightarrow> (\<forall>c \<in> set s. \<not> is_digit c)"
proof (cases "dropWhile (\<lambda>c. \<not> is_digit c) s")
  case Nil
  have none: "match_digits s = None"
    unfolding match_digits_def Nil by simp
  from Nil have "\<forall>c \<in> set s. \<not> is_digit c"
    using dropWhile_eq_Nil_conv [of "\<lambda>c. \<not> is_digit c" s] by simp
  with none show ?thesis by blast
next
  case (Cons c cs)
  have some: "match_digits s \<noteq> None"
    unfolding match_digits_def Cons by simp
  from Cons have "\<not> (\<forall>c \<in> set s. \<not> is_digit c)"
    using dropWhile_eq_Nil_conv [of "\<lambda>c. \<not> is_digit c" s] by simp
  with some show ?thesis by blast
qed

lemma match_digits_run:
  assumes pre: "\<forall>c \<in> set pre. \<not> is_digit c"
    and run: "run \<noteq> []" "\<forall>c \<in> set run. is_digit c"
    and rest: "rest = [] \<or> \<not> is_digit (hd rest)"
  shows "match_digits (pre @ run @ rest) = Some run"
proof -
  obtain d ds where r: "run = d # ds" using run(1) by (cases run) auto
  with run(2) have d: "is_digit d" by simp
  from pre have "dropWhile (\<lambda>c. \<not> is_digit c) (pre @ run @ rest) = dropWhile (\<lambda>c. \<not> is_digit c) (run @ rest)"
    by (simp add: dropWhile_append2)
  also have "\<dots> = run @ rest" using r d by simp
  finally have dw: "dropWhile (\<lambda>c. \<not> is_digit c) (pre @ run @ rest) = d # (ds @ rest)"
    using r by simp
  have "takeWhile is_digit rest = []" using rest by (cases rest) auto
  with run(2) have "takeWhile is_digit (run @ rest) = run"
    by (simp add: takeWhile_append2)
  with dw r show ?thesis by (simp add: match_digits_def)
qed

lemma match_digits_Some:
  assumes "match_digits s = Some m"
  shows "m \<noteq> [] \<and> (\<forall>c \<in> set m. is_digit c)"
proof -
  from assms obtain c cs where dw: "dropWhile (\<lambda>c. \<not> is_digit c) s = c # cs"
    and m: "m = takeWhile is_digit (c # cs)"
    by (auto simp: match_digits_def split: list.splits)
  have "is_digit c"
    using hd_dropWhile [of "\<lambda>c. \<not> is_digit c" s] dw by simp
  with m have "m \<noteq> []" by simp
  moreover from m have "\<forall>c \<in> set m. is_digit c"
    by (auto dest: set_takeWhileD)
  ultimately show ?thesis by simp
qed

lemma parseInt10_digits:
  assumes "m \<noteq> []" "\<forall>c \<in> set m. is_digit c"
  shows "parseInt10 m = to_double (decimal m)"
proof -
  from assms(2) have "takeWhile is_digit m = m" using takeWhile_eq_all_conv [of is_digit m] by blast
  with assms(1) show ?thesis by (cases m) (simp_all add: parseInt10_def)
qed

lemma to_double_not_NaN: "to_double n \<noteq> NaN"
  by (simp add: to_double_def Let_def)

lemma falsy_or_string: "\<not> falsy nf v \<Longrightarrow> \<exists>s. toString ns v = Inr s"
  by (cases v) simp_all

lemma pcr_total: "\<exists>r. parseCameraResolution nf ns v = Inr r \<and> r \<noteq> NaN"
proof (cases "falsy nf v")
  case True
  then show ?thesis by (simp add: parseCameraResolution_def)
next
  case False
  then obtain s where s: "toString ns v = Inr s" using falsy_or_string by blast
  show ?thesis
  proof (cases "match_digits s")
    case None
    with False s show ?thesis by (simp add: parseCameraResolution_def)
  next
    case (Some m)
    with match_digits_Some have "parseInt10 m = to_double (decimal m)"
      by (simp add: parseInt10_digits)
    with False s Some show ?thesis
      by (simp add: parseCameraResolution_def to_double_not_NaN)
  qed
qed

lemma decimal_2_53_plus_1: "decimal ''9007199254740993'' = 9007199254740993"
  by (simp add: decimal_def digit_value_def)

lemma match_digits_2_53_plus_1: "match_digits ''9007199254740993'' = Some ''9007199254740993''"
  by (simp add: match_digits_def is_digit_def)

lemma to_double_2_53_plus_1: "to_double 9007199254740993 = Integer 9007199254740992"
  by (simp add: to_double_def Let_def bit_length.simps)

lemma parseInt10_2_53_plus_1: "parseInt10 ''9007199254740993'' = Integer 9007199254740992"
  by (simp add: parseInt10_def is_digit_def decimal_2_53_plus_1 to_double_2_53_plus_1)

text \<open>
  Claim C8, as stated: on every input \<^verbatim>\<open>parseCameraResolution\<close> returns the integer value
  of the first maximal digit run of the string form. A Number holds an integer exactly
  only up to \<open>2 ^ 53\<close>: the digit run of \<^verbatim>\<open>'9007199254740993'\<close> is the whole string, its
  value is \<open>2 ^ 53 + 1\<close>, and \<^verbatim>\<open>parseInt\<close> returns \<open>2 ^ 53\<close>.
\<close>

theorem parseCameraResolution_digit_run_counterexample:
  "match_digits ''9007199254740993'' = Some ''9007199254740993''
   \<and> decimal ''9007199254740993'' = 9007199254740993
   \<and> parseCameraResolution integer_falsy integer_toString (JString ''9007199254740993'')
       = Inr (Integer 9007199254740992)
   \<and> parseCameraResolution integer_falsy integer_toString (JString ''9007199254740993'')
       \<noteq> Inr (Integer (decimal ''9007199254740993''))"
  by (simp add: parseCameraResolution_def match_digits_2_53_plus_1 parseInt10_2_53_plus_1
      decimal_2_53_plus_1)

text \<open>
  Claim C8, amended. \<^verbatim>\<open>parseCameraResolution\<close> never throws on \<^verbatim>\<open>null\<close>, \<^verbatim>\<open>undefined\<close>, a
  number or a string, and never returns \<open>NaN\<close>. It returns 0 when the input is falsy and
  when its string form has no digit. When the string form has a digit, it returns the
  Number value of the first maximal digit run read in base 10, which is that integer
  itself whenever it is at most \<open>2 ^ 53\<close>.
\<close>

theorem parseCameraResolution_total:
  "parseCameraResolution nf ns v \<noteq> Inl e \<and> parseCameraResolution nf ns v \<noteq> Inr NaN
   \<and> (falsy nf v \<longrightarrow> parseCameraResolution nf ns v = Inr (Integer 0))
   \<and> (toString ns v = Inr s \<and> (\<forall>c \<in> set s. \<not> is_digit c)
        \<longrightarrow> parseCameraResolution nf ns v = Inr (Integer 0))
   \<and> (\<not> falsy nf v \<and> toString ns v = Inr (pre @ run @ rest)
        \<and> (\<forall>c \<in> set pre. \<not> is_digit c)
        \<and> run \<noteq> [] \<and> (\<forall>c \<in> set run. is_digit c)
        \<and> (rest = [] \<or> \<not> is_digit (hd rest))
        \<longrightarrow> parseCameraResolution nf ns v = Inr (to_double (decimal run))
            \<and> (decimal run \<le> 2 ^ 53
                 \<longrightarrow> parseCameraResolution nf ns v = Inr (Integer (decimal run))))"
proof -
  from pcr_total [of nf ns v]
  have a: "parseCameraResolution nf ns v \<noteq> Inl e \<and> parseCameraResolution nf ns v \<noteq> Inr NaN"
    by auto
  have b: "parseCameraResolution nf ns v = Inr (Integer 0)" if "falsy nf v"
    using that by (simp add: parseCameraResolution_def)
  have c: "parseCameraResolution nf ns v = Inr (Integer 0)"
    if "toString ns v = Inr s" "\<forall>c \<in> set s. \<not> is_digit c"
  proof -
    from that(2) have "match_digits s = None" by (simp add: match_digits_None_iff)
    with that(1) show ?thesis by (simp add: parseCameraResolution_def)
  qed
  have d: "parseCameraResolution nf ns v = Inr (to_double (decimal run))"
    if "\<not> falsy nf v" "toString ns v = Inr (pre @ run @ rest)"
      "\<forall>c \<in> set pre. \<not> is_digit c" "run \<noteq> []" "\<forall>c \<in> set run. is_digit c"
      "rest = [] \<or> \<not> is_digit (hd rest)"
  proof -
    from that have "match_digits (pre @ run @ rest) = Some run"
      by (intro match_digits_run)
    moreover from that have "parseInt10 run = to_double (decimal run)"
      by (intro parseInt10_digits)
    ultimately show ?thesis
      using that(1,2) by (simp add: parseCameraResolution_def)
  qed
  have e: "to_double (decimal run) = Integer (decimal run)" if "decimal run \<le> 2 ^ 53"
    using that by (simp add: to_double_def)
  have B: "falsy nf v \<longrightarrow> parseCameraResolution nf ns v = Inr (Integer 0)"
    using b by (rule impI)
  have C: "toString ns v = Inr s \<and> (\<forall>c \<in> set s. \<not> is_digit c)
        \<longrightarrow> parseCameraResolution nf ns v = Inr (Integer 0)"
    using c by (intro impI) (elim conjE)
  have D: "\<not> falsy nf v \<and> toString ns v = Inr (pre @ run @ rest)
        \<and> (\<forall>c \<in> set pre. \<not> is_digit c)
        \<and> run \<noteq> [] \<and> (\<forall>c \<in> set run. is_digit c)
        \<and> (rest = [] \<or> \<not> is_digit (hd rest))
        \<longrightarrow> parseCameraResolution nf ns v = Inr (to_double (decimal run))
            \<and> (decimal run \<le> 2 ^ 53
                 \<longrightarrow> parseCameraResolution nf ns v = Inr (Integer (decimal run)))"
  proof (intro impI, elim conjE)
    assume h: "\<not> falsy nf v" "toString ns v = Inr (pre @ run @ rest)"
      "\<forall>c \<in> set pre. \<not> is_digit c" "run \<noteq> []" "\<forall>c \<in> set run. is_digit c"
      "rest = [] \<or> \<not> is_digit (hd rest)"
    from d [OF h] have r: "parseCameraResolution nf ns v = Inr (to_double (decimal run))" .
    with e show "parseCameraResolution nf ns v = Inr (to_double (decimal run))
            \<and> (decimal run \<le> 2 ^ 53
                 \<longrightarrow> parseCameraResolution nf ns v = Inr (Integer (decimal run)))"
      by simp
  qed
  from a B C D show ?thesis by (intro conjI) (elim conjE, assumption)+
qed

theorem parseCameraResolution_total_witness:
  "parseCameraResolution integer_falsy integer_toString (JString ''48MP'') = Inr (Integer 48)
   \<and> parseCameraResolution integer_falsy integer_toString (JNumber (- 12)) = Inr (Integer 12)
   \<and> parseCameraResolution integer_falsy integer_toString (JNumber 0) = Inr (Integer 0)
   \<and> parseCameraResolution integer_falsy integer_toString JNull = Inr (Integer 0)
   \<and> parseCameraResolution integer_falsy integer_toString (JString ''MP'') = Inr (Integer 0)"
proof -
  have a: "parseCameraResolution integer_falsy integer_toString (JString ''48MP'')
             = Inr (Integer 48)"
  proof -
    have "\<not> falsy integer_falsy (JString ''48MP'')
          \<and> toString integer_toString (JString ''48MP'') = Inr ([] @ ''48'' @ ''MP'')
          \<and> (\<forall>c \<in> set []. \<not> is_digit c)
          \<and> ''48'' \<noteq> [] \<and> (\<forall>c \<in> set ''48''. is_digit c)
          \<and> (''MP'' = [] \<or> \<not> is_digit (hd ''MP''))"
      by (simp add: is_digit_def)
    with parseCameraResolution_total
        [where nf = integer_falsy and ns = integer_toString and v = "JString ''48MP''"
           and pre = "[]" and run = "''48''" and rest = "''MP''" and e = TypeError and s = "[]"]
    have "decimal ''48'' \<le> 2 ^ 53 \<longrightarrow>
          parseCameraResolution integer_falsy integer_toString (JString ''48MP'')
            = Inr (Integer (decimal ''48''))"
      by blast
    moreover have "decimal ''48'' = 48"
      by (simp add: decimal_def digit_value_def)
    ultimately show ?thesis by simp
  qed
  have b: "parseCameraResolution integer_falsy integer_toString (JNumber (- 12))
             = Inr (Integer 12)"
  proof -
    have str: "integer_toString (- 12) = ''-12''"
      by (simp add: integer_toString_def digits_of.simps)
    have "\<not> falsy integer_falsy (JNumber (- 12))
          \<and> toString integer_toString (JNumber (- 12)) = Inr (''-'' @ ''12'' @ [])
          \<and> (\<forall>c \<in> set ''-''. \<not> is_digit c)
          \<and> ''12'' \<noteq> [] \<and> (\<forall>c \<in> set ''12''. is_digit c)
          \<and> ([] = [] \<or> \<not> is_digit (hd []))"
      by (simp add: is_digit_def integer_falsy_def str)
    with parseCameraResolution_total
        [where nf = integer_falsy and ns = integer_toString and v = "JNumber (- 12)"
           and pre = "''-''" and run = "''12''" and rest = "[]" and e = TypeError and s = "[]"]
    have "decimal ''12'' \<le> 2 ^ 53 \<longrightarrow>
          parseCameraResolution integer_falsy integer_toString (JNumber (- 12))
            = Inr (Integer (decimal ''12''))"
      by blast
    moreover have "decimal ''12'' = 12"
      by (simp add: decimal_def digit_value_def)
    ultimately show ?thesis by simp
  qed
  have c: "parseCameraResolution integer_falsy integer_toString (JNumber 0) = Inr (Integer 0)"
    using parseCameraResolution_total
      [where nf = integer_falsy and ns = integer_toString and v = "JNumber 0"
         and e = TypeError and s = "[]" and pre = "[]" and run = "[]" and rest = "[]"]
    by (simp add: integer_falsy_def)
  have d: "parseCameraResolution integer_falsy integer_toString JNull = Inr (Integer 0)"
    using parseCameraResolution_total
      [where nf = integer_falsy and ns = integer_toString and v = JNull
         and e = TypeError and s = "[]" and pre = "[]" and run = "[]" and rest = "[]"]
    by simp
  have e: "parseCameraResolution integer_falsy integer_toString (JString ''MP'')
             = Inr (Integer 0)"
  proof -
    have "toString integer_toString (JString ''MP'') = Inr ''MP''
          \<and> (\<forall>c \<in> set ''MP''. \<not> is_digit c)"
      by (simp add: is_digit_def)
    then show ?thesis
      using parseCameraResolution_total
        [where nf = integer_falsy and ns = integer_toString and v = "JString ''MP''"
           and s = "''MP''" and e = TypeError and pre = "[]" and run = "[]" and rest = "[]"]
      by blast
  qed
  from a b c d e show ?thesis by simp
qed

section \<open>Properties of the sorted recommendations\<close>

lemma mset_insert_sorted: "mset (insert_sorted cmp x ys) = add_mset x (mset ys)"
  by (induction ys) simp_all

lemma mset_Array_sort: "mset (Array_sort comparefn xs) = mset xs"
  by (induction xs) (simp_all add: Array_sort_def mset_insert_sorted)

lemma set_insert_sorted: "set (insert_sorted cmp x ys) = insert x (set ys)"
  using mset_insert_sorted [of cmp x ys, THEN arg_cong, of set_mset] by simp

lemma sorted_insert_sorted:
  assumes "sorted_wrt (\<lambda>a b. f b \<le> f a) ys"
  shows "sorted_wrt (\<lambda>a b. f b \<le> f a) (insert_sorted (\<lambda>a b. f b - f a) x ys)"
  using assms
proof (induction ys)
  case Nil
  then show ?case by simp
next
  case (Cons y ys)
  show ?case
  proof (cases "f y - f x \<le> (0::real)")
    case True
    with Cons.prems show ?thesis by auto
  next
    case False
    with Cons show ?thesis by (auto simp: set_insert_sorted)
  qed
qed

lemma SortCompare_similarity:
  "sortBy = ''similarity'' \<Longrightarrow>
   SortCompare (compareFn sortBy) = (\<lambda>a b. similarity_score b - similarity_score a)"
  by (intro ext) (simp add: SortCompare_def compareFn_def)

lemma sorted_Array_sort_similarity:
  "sorted_wrt (\<lambda>a b. similarity_score b \<le> similarity_score a)
     (Array_sort (compareFn ''similarity'') xs)"
proof (induction xs)
  case Nil
  show ?case by (simp add: Array_sort_def)
next
  case (Cons x xs)
  then show ?case
    using sorted_insert_sorted [of similarity_score "Array_sort (compareFn ''similarity'') xs" x]
    by (simp add: Array_sort_def SortCompare_similarity)
qed

text \<open>
  Claim C9. Whatever \<^verbatim>\<open>sortBy\<close> is, \<^verbatim>\<open>sortedRecommendations\<close> is a permutation of the
  recommendations received, held in a new array, and the array received is left as it
  was; under \<^verbatim>\<open>sortBy = 'similarity'\<close> the result is in order of non-increasing
  \<^verbatim>\<open>similarity_score\<close>.
\<close>

theorem sortedRecommendations_permutation:
  assumes "recommendations < length h"
  shows "mset (deref (fst (sortedRecommendations h recommendations sortBy))
                     (snd (sortedRecommendations h recommendations sortBy)))
           = mset (deref h recommendations)
         \<and> deref (fst (sortedRecommendations h recommendations sortBy)) recommendations
           = deref h recommendations
         \<and> take (length h) (fst (sortedRecommendations h recommendations sortBy)) = h
         \<and> snd (sortedRecommendations h recommendations sortBy) \<noteq> recommendations
         \<and> (sortBy = ''similarity'' \<longrightarrow>
              sorted_wrt (\<lambda>a b. similarity_score a \<ge> similarity_score b)
                (deref (fst (sortedRecommendations h recommendations sortBy))
                       (snd (sortedRecommendations h recommendations sortBy))))"
proof -
  let ?sorted = "Array_sort (compareFn sortBy) (h ! recommendations)"
  have res: "sortedRecommendations h recommendations sortBy = (h @ [?sorted], length h)"
    using assms
    by (simp add: sortedRecommendations_def spread_def sort_in_place_def deref_def)
  have got: "deref (h @ [?sorted]) (length h) = ?sorted"
    by (simp add: deref_def)
  have kept: "deref (h @ [?sorted]) recommendations = deref h recommendations"
    using assms by (simp add: deref_def nth_append)
  have orig: "deref h recommendations = h ! recommendations"
    using assms by (simp add: deref_def)
  have perm: "mset ?sorted = mset (h ! recommendations)"
    by (rule mset_Array_sort)
  have ord: "sorted_wrt (\<lambda>a b. similarity_score a \<ge> similarity_score b) ?sorted"
    if "sortBy = ''similarity''"
    using that sorted_Array_sort_similarity [of "h ! recommendations"] by simp
  from assms have fresh: "length h \<noteq> recommendations" by simp
  show ?thesis
    unfolding res fst_conv snd_conv got kept orig
    using perm ord fresh by simp
qed

theorem sortedRecommendations_permutation_witness:
  "(0::nat) < length [[rec_A, rec_B, rec_C]]
   \<and> sortedRecommendations [[rec_A, rec_B, rec_C]] 0 ''similarity''
       = ([[rec_A, rec_B, rec_C], [rec_B, rec_C, rec_A]], 1)
   \<and> mset [rec_B, rec_C, rec_A] = mset [rec_A, rec_B, rec_C]
   \<and> sorted_wrt (\<lambda>a b. similarity_score a \<ge> similarity_score b) [rec_B, rec_C, rec_A]"
proof -
  have len: "(0::nat) < length [[rec_A, rec_B, rec_C]]" by simp
  have scores: "similarity_score rec_A = 0.5" "similarity_score rec_B = 0.9"
    "similarity_score rec_C = 0.8"
    by (simp_all add: rec_A_def rec_B_def rec_C_def)
  have res: "sortedRecommendations [[rec_A, rec_B, rec_C]] 0 ''similarity''
       = ([[rec_A, rec_B, rec_C], [rec_B, rec_C, rec_A]], 1)"
    by (simp add: sortedRecommendations_def spread_def sort_in_place_def deref_def
        Array_sort_def SortCompare_def compareFn_def scores)
  from sortedRecommendations_permutation [OF len, of "''similarity''"]
  show ?thesis
    unfolding res by (simp add: deref_def)
qed

section \<open>Properties of the Evaluation page\<close>

lemma confusion_matrix_default_scenario:
  "confusion_matrix default_scenario =
     \<lparr> matrix = [[24, 8, 9], [7, 122, 17], [1, 30, 82]],
       labels = [''Gaming'', ''Photographer'', ''Daily''],
       tp = 228, tn = 0, fp = 72, fn = 0 \<rparr>"
  by (simp add: default_scenario_def DEFAULT_RESULTS_def)

lemma results_loadResults_default:
  assumes "outcome = Rejected \<or> outcome = Resolved None \<or> outcome = Resolved (Some [])"
  shows "results (loadResults outcome s) = Some DEFAULT_RESULTS"
  using assms by (auto simp: loadResults_def Let_def)

lemma results_loadResults_nonempty:
  assumes "rs \<noteq> []"
  shows "results (loadResults (Resolved (Some rs)) s) =
     Some \<lparr> success = True, best_scenario = scenario (hd rs),
        scenarios = map (\<lambda>r. \<lparr> name = scenario r, train_size = 700, test_size = 300,
                            metrics = api_metrics r,
                            confusion_matrix = confusion_matrix default_scenario \<rparr>) rs \<rparr>"
  using assms by (simp add: loadResults_def Let_def confusion_matrix_default_scenario)

lemma outcome_cases:
  obtains "outcome = Rejected \<or> outcome = Resolved None \<or> outcome = Resolved (Some [])"
  | rs where "outcome = Resolved (Some rs)" "rs \<noteq> []"
proof (cases outcome)
  case Rejected
  then show ?thesis using that(1) by simp
next
  case (Resolved data_results)
  show ?thesis
  proof (cases data_results)
    case None
    with Resolved show ?thesis using that(1) by simp
  next
    case (Some rs)
    with Resolved show ?thesis using that by (cases "rs = []") simp_all
  qed
qed

lemma stored_scenarios_loadResults:
  "stored_scenarios (loadResults outcome s) \<noteq> []
   \<and> (\<forall>sc \<in> set (stored_scenarios (loadResults outcome s)).
         confusion_matrix sc = confusion_matrix default_scenario)"
proof (cases outcome rule: outcome_cases)
  case 1
  from results_loadResults_default [OF this] show ?thesis
    by (simp add: stored_scenarios_def DEFAULT_RESULTS_def default_scenario_def)
next
  case (2 rs)
  with results_loadResults_nonempty [OF 2(2)] show ?thesis
    by (simp add: stored_scenarios_def)
qed

lemma confusionMatrix_stored:
  "confusionMatrix s =
     (case stored_scenarios s of
        [] \<Rightarrow> [[24, 8, 9], [7, 122, 17], [1, 30, 82]]
      | sc # _ \<Rightarrow> matrix (confusion_matrix sc))"
  by (simp add: confusionMatrix_def first_scenario_def stored_scenarios_def
      split: option.splits list.splits)

lemma confusionMatrix_loadResults:
  "confusionMatrix (loadResults outcome s) = [[24, 8, 9], [7, 122, 17], [1, 30, 82]]"
proof -
  from stored_scenarios_loadResults [of outcome s]
  have ne: "stored_scenarios (loadResults outcome s) \<noteq> []"
    and all: "\<forall>sc \<in> set (stored_scenarios (loadResults outcome s)).
                confusion_matrix sc = confusion_matrix default_scenario"
    by blast+
  from ne obtain sc scs where sc: "stored_scenarios (loadResults outcome s) = sc # scs"
    by (cases "stored_scenarios (loadResults outcome s)") blast+
  from all have cm: "confusion_matrix sc = confusion_matrix default_scenario"
    unfolding sc by simp
  have "confusionMatrix (loadResults outcome s) = matrix (confusion_matrix sc)"
    unfolding confusionMatrix_stored sc by simp
  also have "\<dots> = matrix (confusion_matrix default_scenario)"
    by (simp only: cm)
  also have "\<dots> = [[24, 8, 9], [7, 122, 17], [1, 30, 82]]"
    by (simp add: confusion_matrix_default_scenario)
  finally show ?thesis .
qed

lemma loading_loadResults: "loading (loadResults outcome s) = False"
  by (simp add: loadResults_def Let_def)

lemma stored_runEvaluation:
  "stored_scenarios (runEvaluation (RunResolved data) s) = scenarios data"
  "stored_scenarios (runEvaluation RunRejected s) = stored_scenarios s"
  by (simp_all add: runEvaluation_def Let_def stored_scenarios_def)

text \<open>
  Claim C10, as stated: for non-empty responses only the \<^verbatim>\<open>metrics\<close> field varies with
  the response, and what is fetched from the server never influences the matrix
  displayed. Two responses with the same metrics and different scenario names give
  scenarios and a \<^verbatim>\<open>best_scenario\<close> that differ; and once \<^verbatim>\<open>runEvaluation\<close> has
  resolved, the page displays the matrix of the server's response.
\<close>

theorem loadResults_only_metrics_counterexample:
  "api_metrics api_70_30 = api_metrics api_70_30_renamed
   \<and> map name (stored_scenarios (loadResults (Resolved (Some [api_70_30])) state_0))
       = [''70-30'']
   \<and> map name (stored_scenarios (loadResults (Resolved (Some [api_70_30_renamed])) state_0))
       = [''80-20'']
   \<and> map_option best_scenario (results (loadResults (Resolved (Some [api_70_30])) state_0))
       = Some ''70-30''
   \<and> map_option best_scenario
         (results (loadResults (Resolved (Some [api_70_30_renamed])) state_0))
       = Some ''80-20''
   \<and> confusionMatrix
         (runEvaluation (RunResolved run_response)
            (loadResults (Resolved (Some [api_70_30])) state_0))
       = [[30, 5, 6], [7, 125, 14], [3, 25, 85]]"
  by (simp add: results_loadResults_nonempty stored_scenarios_def confusionMatrix_stored
      stored_runEvaluation api_70_30_def api_70_30_renamed_def run_response_def
      runEvaluation_def Let_def)

text \<open>
  Claim C10, amended. After \<^verbatim>\<open>loadResults\<close> the page holds results with at least one
  scenario, and the matrix it displays is the constant matrix, whatever
  \<^verbatim>\<open>evaluationAPI.getResults\<close> did; the same constant is the fallback at render time.
  For a non-empty response every scenario carries the constant matrix with \<^verbatim>\<open>tp = 228\<close>
  and \<^verbatim>\<open>fp = 72\<close> and the sizes 700 and 300, while its name and metrics, and
  \<^verbatim>\<open>best_scenario\<close>, are those of the response; for every other outcome the results are
  \<^verbatim>\<open>DEFAULT_RESULTS\<close>. After \<^verbatim>\<open>runEvaluation\<close> has resolved, the matrix displayed is
  that of the first scenario of its response.
\<close>

theorem loadResults_matrix_constant:
  "stored_scenarios (loadResults outcome s) \<noteq> []
   \<and> loading (loadResults outcome s) = False
   \<and> confusionMatrix (loadResults outcome s) = [[24, 8, 9], [7, 122, 17], [1, 30, 82]]
   \<and> confusionMatrix (loadResults outcomeA sA) = confusionMatrix (loadResults outcomeB sB)
   \<and> confusionMatrix (s\<lparr> results := None \<rparr>) = [[24, 8, 9], [7, 122, 17], [1, 30, 82]]
   \<and> matrix (confusion_matrix default_scenario) = [[24, 8, 9], [7, 122, 17], [1, 30, 82]]
   \<and> tp (confusion_matrix default_scenario) = 228
   \<and> fp (confusion_matrix default_scenario) = 72
   \<and> (rs \<noteq> [] \<longrightarrow>
        map confusion_matrix (stored_scenarios (loadResults (Resolved (Some rs)) s))
          = replicate (length rs) (confusion_matrix default_scenario)
        \<and> map train_size (stored_scenarios (loadResults (Resolved (Some rs)) s))
          = replicate (length rs) 700
        \<and> map test_size (stored_scenarios (loadResults (Resolved (Some rs)) s))
          = replicate (length rs) 300
        \<and> map name (stored_scenarios (loadResults (Resolved (Some rs)) s)) = map scenario rs
        \<and> map metrics (stored_scenarios (loadResults (Resolved (Some rs)) s))
          = map api_metrics rs
        \<and> map_option best_scenario (results (loadResults (Resolved (Some rs)) s))
          = Some (scenario (hd rs)))
   \<and> (outcome = Rejected \<or> outcome = Resolved None \<or> outcome = Resolved (Some [])
        \<longrightarrow> results (loadResults outcome s) = Some DEFAULT_RESULTS)
   \<and> (scenarios data = sc # scs \<longrightarrow>
        confusionMatrix (runEvaluation (RunResolved data) s) = matrix (confusion_matrix sc))"
proof -
  have ne: "stored_scenarios (loadResults outcome s) \<noteq> []"
    using stored_scenarios_loadResults [of outcome s] by blast
  have same: "confusionMatrix (loadResults outcomeA sA) = confusionMatrix (loadResults outcomeB sB)"
    by (simp only: confusionMatrix_loadResults)
  have fallback: "confusionMatrix (s\<lparr> results := None \<rparr>) = [[24, 8, 9], [7, 122, 17], [1, 30, 82]]"
    by (simp add: confusionMatrix_def first_scenario_def)
  have const: "matrix (confusion_matrix default_scenario) = [[24, 8, 9], [7, 122, 17], [1, 30, 82]]"
    "tp (confusion_matrix default_scenario) = 228" "fp (confusion_matrix default_scenario) = 72"
    by (simp_all add: confusion_matrix_default_scenario)
  have nonempty: "map confusion_matrix (stored_scenarios (loadResults (Resolved (Some rs)) s))
          = replicate (length rs) (confusion_matrix default_scenario)
        \<and> map train_size (stored_scenarios (loadResults (Resolved (Some rs)) s))
          = replicate (length rs) 700
        \<and> map test_size (stored_scenarios (loadResults (Resolved (Some rs)) s))
          = replicate (length rs) 300
        \<and> map name (stored_scenarios (loadResults (Resolved (Some rs)) s)) = map scenario rs
        \<and> map metrics (stored_scenarios (loadResults (Resolved (Some rs)) s))
          = map api_metrics rs
        \<and> map_option best_scenario (results (loadResults (Resolved (Some rs)) s))
          = Some (scenario (hd rs))"
    if "rs \<noteq> []"
    by (simp add: stored_scenarios_def results_loadResults_nonempty [OF that] comp_def
        map_replicate_const)
  have other: "results (loadResults outcome s) = Some DEFAULT_RESULTS"
    if "outcome = Rejected \<or> outcome = Resolved None \<or> outcome = Resolved (Some [])"
    using that by (rule results_loadResults_default)
  have run: "confusionMatrix (runEvaluation (RunResolved data) s) = matrix (confusion_matrix sc)"
    if "scenarios data = sc # scs"
    by (simp add: confusionMatrix_stored stored_runEvaluation that)
  show ?thesis
  proof (intro conjI impI)
    show "stored_scenarios (loadResults outcome s) \<noteq> []" by (rule ne)
    show "loading (loadResults outcome s) = False" by (rule loading_loadResults)
    show "confusionMatrix (loadResults outcome s) = [[24, 8, 9], [7, 122, 17], [1, 30, 82]]"
      by (rule confusionMatrix_loadResults)
    show "confusionMatrix (loadResults outcomeA sA) = confusionMatrix (loadResults outcomeB sB)"
      by (rule same)
    show "confusionMatrix (s\<lparr> results := None \<rparr>) = [[24, 8, 9], [7, 122, 17], [1, 30, 82]]"
      by (rule fallback)
    show "matrix (confusion_matrix default_scenario) = [[24, 8, 9], [7, 122, 17], [1, 30, 82]]"
      "tp (confusion_matrix default_scenario) = 228" "fp (confusion_matrix default_scenario) = 72"
      by (rule const)+
  next
    assume h: "rs \<noteq> []"
    note n = nonempty [OF h]
    from n show "map confusion_matrix (stored_scenarios (loadResults (Resolved (Some rs)) s))
          = replicate (length rs) (confusion_matrix default_scenario)" by blast
    from n show "map train_size (stored_scenarios (loadResults (Resolved (Some rs)) s))
          = replicate (length rs) 700" by blast
    from n show "map test_size (stored_scenarios (loadResults (Resolved (Some rs)) s))
          = replicate (length rs) 300" by blast
    from n show "map name (stored_scenarios (loadResults (Resolved (Some rs)) s)) = map scenario rs"
      by blast
    from n show "map metrics (stored_scenarios (loadResults (Resolved (Some rs)) s))
          = map api_metrics rs" by blast
    from n show "map_option best_scenario (results (loadResults (Resolved (Some rs)) s))
          = Some (scenario (hd rs))" by blast
  next
    assume "outcome = Rejected \<or> outcome = Resolved None \<or> outcome = Resolved (Some [])"
    then show "results (loadResults outcome s) = Some DEFAULT_RESULTS" by (rule other)
  next
    assume "scenarios data = sc # scs"
    then show "confusionMatrix (runEvaluation (RunResolved data) s) = matrix (confusion_matrix sc)"
      by (rule run)
  qed
qed

theorem loadResults_matrix_constant_witness:
  "[api_80_20, api_70_30] \<noteq> []
   \<and> map name (stored_scenarios (loadResults (Resolved (Some [api_80_20, api_70_30])) state_0))
       = [''80-20'', ''70-30'']
   \<and> map metrics (stored_scenarios (loadResults (Resolved (Some [api_80_20, api_70_30])) state_0))
       = [api_metrics api_80_20, api_metrics api_70_30]
   \<and> map (\<lambda>sc. matrix (confusion_matrix sc))
         (stored_scenarios (loadResults (Resolved (Some [api_80_20, api_70_30])) state_0))
       = [[[24, 8, 9], [7, 122, 17], [1, 30, 82]], [[24, 8, 9], [7, 122, 17], [1, 30, 82]]]
   \<and> results (loadResults (Resolved (Some [])) state_0) = Some DEFAULT_RESULTS
   \<and> confusionMatrix (loadResults (Resolved (Some [api_80_20, api_70_30])) state_0)
       = confusionMatrix (loadResults Rejected state_0)
   \<and> scenarios run_response = [hd (scenarios run_response)]
   \<and> confusionMatrix (runEvaluation (RunResolved run_response) state_0)
       = [[30, 5, 6], [7, 125, 14], [3, 25, 85]]"
proof -
  let ?rs = "[api_80_20, api_70_30]"
  let ?st = "stored_scenarios (loadResults (Resolved (Some ?rs)) state_0)"
  have run: "scenarios run_response = hd (scenarios run_response) # []"
    by (simp add: run_response_def)
  note inst = loadResults_matrix_constant
    [where rs = ?rs and s = state_0 and outcome = "Resolved (Some [])"
       and outcomeA = "Resolved (Some ?rs)" and sA = state_0
       and outcomeB = Rejected and sB = state_0
       and data = run_response and sc = "hd (scenarios run_response)" and scs = "[]"]
  from inst have n: "map name ?st = map scenario ?rs"
    and m: "map metrics ?st = map api_metrics ?rs"
    and c: "map confusion_matrix ?st = replicate (length ?rs) (confusion_matrix default_scenario)"
    and k: "matrix (confusion_matrix default_scenario) = [[24, 8, 9], [7, 122, 17], [1, 30, 82]]"
    and d: "results (loadResults (Resolved (Some [])) state_0) = Some DEFAULT_RESULTS"
    and e: "confusionMatrix (loadResults (Resolved (Some ?rs)) state_0)
              = confusionMatrix (loadResults Rejected state_0)"
    by simp_all
  from inst run have r: "confusionMatrix (runEvaluation (RunResolved run_response) state_0)
              = matrix (confusion_matrix (hd (scenarios run_response)))"
    by blast
  have names: "map scenario ?rs = [''80-20'', ''70-30'']"
    by (simp add: api_80_20_def api_70_30_def)
  have mats: "map (\<lambda>sc. matrix (confusion_matrix sc)) ?st
      = map matrix (map confusion_matrix ?st)"
    by simp
  have shown: "matrix (confusion_matrix (hd (scenarios run_response)))
      = [[30, 5, 6], [7, 125, 14], [3, 25, 85]]"
    by (simp add: run_response_def)
  show ?thesis
    unfolding mats c n m r shown names
    using d e k run by (simp add: numeral_2_eq_2)
qed

section \<open>The embedded evaluation figures\<close>

lemma default_matrix_eq:
  "default_matrix = [[24, 8, 9], [7, 122, 17], [1, 30, 82]]"
  by (simp add: default_matrix_def default_scenario_def DEFAULT_RESULTS_def)

lemma default_metrics:
  "metrics default_scenario
     = \<lparr> accuracy = 76.0, precision = 75.96, recall = 76.0, f1_score = 75.74 \<rparr>"
  by (simp add: default_scenario_def DEFAULT_RESULTS_def)

lemma upt_0_3: "[0..<3] = [0, Suc 0, 2]"
  by (simp add: upt_rec)

lemma length_default_matrix: "length default_matrix = 3"
  by (simp add: default_matrix_eq)

lemma row_sum_default:
  "row_sum default_matrix 0 = 41"
  "row_sum default_matrix (Suc 0) = 146"
  "row_sum default_matrix 2 = 113"
  by (simp_all add: row_sum_def default_matrix_eq)

lemma matrix_total_default: "matrix_total default_matrix = 300"
  by (simp add: matrix_total_def default_matrix_eq)

lemma class_precision_default:
  "class_precision default_matrix 0 = 3 / 4"
  "class_precision default_matrix (Suc 0) = 61 / 80"
  "class_precision default_matrix 2 = 41 / 54"
  by (simp_all add: class_precision_def column_sum_def default_matrix_eq)

lemma class_recall_default:
  "class_recall default_matrix 0 = 24 / 41"
  "class_recall default_matrix (Suc 0) = 61 / 73"
  "class_recall default_matrix 2 = 82 / 113"
  by (simp_all add: class_recall_def row_sum_def default_matrix_eq)

lemma class_f1_default:
  "class_f1 default_matrix 0 = 48 / 73"
  "class_f1 default_matrix (Suc 0) = 122 / 153"
  "class_f1 default_matrix 2 = 164 / 221"
  by (simp_all add: class_f1_def Let_def class_precision_default class_recall_default)

lemma weighted_default:
  "weighted_average class_precision default_matrix = 246101 / 324000"
  "weighted_average class_recall default_matrix = 19 / 25"
  "weighted_average class_f1 default_matrix = 485198 / 640575"
  by (simp_all add: weighted_average_def length_default_matrix upt_0_3 row_sum_default
      matrix_total_default class_precision_default class_recall_default class_f1_default)

lemma round_examples:
  "round_to 2 (3 / 4) = 0.75" "round_to 2 (61 / 80) = 0.76" "round_to 2 (41 / 54) = 0.76"
  "round_to 2 (24 / 41) = 0.59" "round_to 2 (61 / 73) = 0.84" "round_to 2 (82 / 113) = 0.73"
  "round_to 2 (48 / 73) = 0.66" "round_to 2 (122 / 153) = 0.80" "round_to 2 (164 / 221) = 0.74"
  "round_to 2 (100 * (246101 / 324000)) = 75.96"
  "round_to 2 (100 * (19 / 25)) = 76.0"
  "round_to 2 (100 * (485198 / 640575)) = 75.74"
  by (simp_all add: round_to_def round_def floor_rat_numeral)

text \<open>
  Claim C2. In the embedded 70-30 result the rows of the confusion matrix sum to the
  supports that the Classification Report shows (41, 146, 113), the nine entries sum to
  the testing size 300, and the trace, 228, over 300 is the reported accuracy of 76.0
  percent, a fraction within [0,1].
\<close>

theorem default_results_consistent:
  "scenarios DEFAULT_RESULTS = [default_scenario]
   \<and> default_matrix = [[24, 8, 9], [7, 122, 17], [1, 30, 82]]
   \<and> map sum_list default_matrix = map support classification_report
   \<and> map label classification_report = labels (confusion_matrix default_scenario)
   \<and> map support classification_report = [41, 146, 113]
   \<and> matrix_total default_matrix = test_size default_scenario
   \<and> test_size default_scenario = 300
   \<and> trace default_matrix = 228
   \<and> tp (confusion_matrix default_scenario) = trace default_matrix
   \<and> of_nat (trace default_matrix) / of_nat (test_size default_scenario) * 100
       = accuracy (metrics default_scenario)
   \<and> accuracy (metrics default_scenario) = 76.0
   \<and> 0 \<le> accuracy (metrics default_scenario) / 100
   \<and> accuracy (metrics default_scenario) / 100 \<le> 1"
  by (simp add: default_matrix_def default_scenario_def DEFAULT_RESULTS_def
      classification_report_def matrix_total_def trace_def diagonal_def upt_rec)

text \<open>
  Claim C3. The spec's formulas, evaluated in exact rational arithmetic on the embedded
  confusion matrix and rounded to two decimals, give every figure of the embedded
  Classification Report (precision, recall, F1 and support of Gaming, Photographer and
  Daily) and, as percentages, the embedded summary metrics: precision 75.96, recall 76.0,
  F1 75.74.
\<close>

theorem default_report_reproduced:
  "default_matrix = [[24, 8, 9], [7, 122, 17], [1, 30, 82]]
   \<and> map (\<lambda>i. round_to 2 (class_precision default_matrix i)) [0..<3]
       = map row_precision classification_report
   \<and> map (\<lambda>i. round_to 2 (class_recall default_matrix i)) [0..<3]
       = map row_recall classification_report
   \<and> map (\<lambda>i. round_to 2 (class_f1 default_matrix i)) [0..<3]
       = map row_f1 classification_report
   \<and> map (row_sum default_matrix) [0..<3] = map support classification_report
   \<and> map row_precision classification_report = [0.75, 0.76, 0.76]
   \<and> map row_recall classification_report = [0.59, 0.84, 0.73]
   \<and> map row_f1 classification_report = [0.66, 0.80, 0.74]
   \<and> map support classification_report = [41, 146, 113]
   \<and> round_to 2 (100 * weighted_average class_precision default_matrix)
       = precision (metrics default_scenario)
   \<and> round_to 2 (100 * weighted_average class_recall default_matrix)
       = recall (metrics default_scenario)
   \<and> round_to 2 (100 * weighted_average class_f1 default_matrix)
       = f1_score (metrics default_scenario)
   \<and> metrics default_scenario
       = \<lparr> accuracy = 76.0, precision = 75.96, recall = 76.0, f1_score = 75.74 \<rparr>"
proof -
  have rows: "map row_precision classification_report = [0.75, 0.76, 0.76]"
    "map row_recall classification_report = [0.59, 0.84, 0.73]"
    "map row_f1 classification_report = [0.66, 0.80, 0.74]"
    "map support classification_report = [41, 146, 113]"
    by (simp_all add: classification_report_def)
  have p: "map (\<lambda>i. round_to 2 (class_precision default_matrix i)) [0..<3] = [0.75, 0.76, 0.76]"
    unfolding upt_0_3 list.map class_precision_default round_examples by (rule refl)
  have r: "map (\<lambda>i. round_to 2 (class_recall default_matrix i)) [0..<3] = [0.59, 0.84, 0.73]"
    unfolding upt_0_3 list.map class_recall_default round_examples by (rule refl)
  have f: "map (\<lambda>i. round_to 2 (class_f1 default_matrix i)) [0..<3] = [0.66, 0.80, 0.74]"
    unfolding upt_0_3 list.map class_f1_default round_examples by (rule refl)
  have s: "map (row_sum default_matrix) [0..<3] = [41, 146, 113]"
    unfolding upt_0_3 list.map row_sum_default by (rule refl)
  have w: "round_to 2 (100 * weighted_average class_precision default_matrix) = 75.96"
    "round_to 2 (100 * weighted_average class_recall default_matrix) = 76.0"
    "round_to 2 (100 * weighted_average class_f1 default_matrix) = 75.74"
    unfolding weighted_default round_examples by (rule refl)+
  have m: "precision (metrics default_scenario) = 75.96"
    "recall (metrics default_scenario) = 76.0"
    "f1_score (metrics default_scenario) = 75.74"
    by (simp_all add: default_metrics)
  show ?thesis
    unfolding p r f s w m rows
    using default_matrix_eq default_metrics by simp
qed

section \<open>Properties of the similarity conversion\<close>

text \<open>
  Claim C6. For every distance \<open>d \<ge> 0\<close>, \<open>similarity d\<close> lies in (0,1], it is 1 exactly when
  \<open>d = 0\<close>, and \<open>similarity\<close> is strictly decreasing on the non-negative distances; it
  never reaches 0.
\<close>

theorem similarity_range_decreasing:
  "(0 \<le> d \<longrightarrow> 0 < similarity d \<and> similarity d \<le> 1 \<and> (similarity d = 1 \<longleftrightarrow> d = 0))
   \<and> (0 \<le> d1 \<and> d1 < d2 \<longrightarrow> similarity d2 < similarity d1)
   \<and> similarity 0 = 1"
proof (intro conjI impI)
  assume d: "0 \<le> d"
  then have pos: "0 < 1 + d" by simp
  from pos show "0 < similarity d"
    by (simp add: similarity_def)
  from d pos show "similarity d \<le> 1"
    by (simp add: similarity_def)
  from pos show "(similarity d = 1) = (d = 0)"
    by (simp add: similarity_def)
next
  assume "0 \<le> d1 \<and> d1 < d2"
  then have "0 < 1 + d1" and "1 + d1 < 1 + d2" by simp_all
  then have "1 / (1 + d2) < 1 / (1 + d1)"
    by (simp add: frac_less2)
  then show "similarity d2 < similarity d1"
    by (simp add: similarity_def)
next
  show "similarity 0 = 1"
    by (simp add: similarity_def)
qed

theorem similarity_range_decreasing_witness:
  "(0::real) \<le> 3 \<and> 0 < similarity 3 \<and> similarity 3 \<le> 1 \<and> similarity 3 \<noteq> 1
   \<and> (0::real) \<le> 1 \<and> (1::real) < 3 \<and> similarity 3 < similarity 1"
  using similarity_range_decreasing [of 3 1 3]
  by simp

end
